theory Spec2Isabelle
  imports Main "HOL-Library.Sublist"
begin

section \<open>Python values\<close>

text \<open>
  Values decoded from JSON (responses of the client's local API, fields of event-channel
  messages) are Python objects. \<open>JNull\<close> is Python's \<open>None\<close>; a dict is an association
  list whose keys are distinct, in insertion order. JSON numbers are taken to be integers.
  Python's \<open>==\<close> on such values is equality of the terms, except that Python takes
  \<open>True\<close> for \<open>1\<close> and \<open>False\<close> for \<open>0\<close>; ids, phases and names are numbers and
  strings, on which the two agree.
\<close>

datatype json =
    JNull
  | JBool bool
  | JInt int
  | JStr string
  | JList "json list"
  | JObj "(string \<times> json) list"

text \<open>Python truthiness (\<open>if x\<close>, \<open>not x\<close>, \<open>x or y\<close>).\<close>

fun truthy :: "json \<Rightarrow> bool" where
  "truthy JNull = False"
| "truthy (JBool b) = b"
| "truthy (JInt n) = (n \<noteq> 0)"
| "truthy (JStr s) = (s \<noteq> [])"
| "truthy (JList xs) = (xs \<noteq> [])"
| "truthy (JObj kvs) = (kvs \<noteq> [])"

text \<open>
  \<open>str.lower()\<close>. Strings are byte lists here; the letters \<open>A\<close> to \<open>Z\<close> are mapped to
  \<open>a\<close> to \<open>z\<close> and every other byte is kept (names are ASCII, as all names of the
  catalog are).
\<close>

definition lower_char :: "char \<Rightarrow> char" where
  "lower_char c =
     (let n = (of_char c :: nat) in if 65 \<le> n \<and> n \<le> 90 then char_of (n + 32) else c)"

definition lower :: "string \<Rightarrow> string" where
  "lower s = map lower_char s"

text \<open>\<open>a in b\<close> on two Python strings: \<open>a\<close> occurs in \<open>b\<close> as a contiguous run.\<close>

fun starts_with :: "string \<Rightarrow> string \<Rightarrow> bool" where
  "starts_with s [] = True"
| "starts_with [] (p # ps) = False"
| "starts_with (c # cs) (p # ps) = (c = p \<and> starts_with cs ps)"

fun str_in :: "string \<Rightarrow> string \<Rightarrow> bool" where
  "str_in a [] = (a = [])"
| "str_in a (c # cs) = (starts_with (c # cs) a \<or> str_in a cs)"

section \<open>RuneManager: catalog and resolver\<close>

text \<open>One entry of \<open>RuneManager.rune_data[champion_name]["auto"]\<close>.\<close>

record rune_setup =
  primary_style :: int
  sub_style :: int
  selected_perks :: "int list"

text \<open>
  The content of \<open>rune_data.json\<close> as the scraper writes it. A key that may be absent
  is an option; the three lists default to the empty list when absent
  (\<open>scraped_data.get("primary_runes", [])\<close>).
\<close>

record scraped_data =
  champion :: "string option"
  primary_path :: "string option"
  secondary_path :: "string option"
  keystone :: "string option"
  primary_runes :: "string list"
  secondary_runes :: "string list"
  stat_shards :: "string list"

text \<open>
  The fields of a \<open>RuneManager\<close>. The two lookup tables are Python dict literals; they are
  association lists in declaration order, which is the order \<open>.items()\<close> iterates in.
\<close>

record rune_manager =
  current_page_id :: json
  rune_data :: "string \<rightharpoonup> rune_setup"
  path_id_map :: "(string \<times> int) list"
  rune_id_map :: "(string \<times> int) list"

definition RuneManager_init :: rune_manager where
  "RuneManager_init = \<lparr>
     current_page_id = JNull,
     rune_data = Map.empty,
     path_id_map = [
       (''Precision'', 8000),
       (''Domination'', 8100),
       (''Sorcery'', 8200),
       (''Inspiration'', 8300),
       (''Resolve'', 8400)],
     rune_id_map = [
       (''Press the Attack'', 8005),
       (''Lethal Tempo'', 8008),
       (''Fleet Footwork'', 8021),
       (''Conqueror'', 8010),
       (''Absorb Life'', 9101),
       (''Triumph'', 9111),
       (''Presence of Mind'', 8009),
       (''Legend: Alacrity'', 9104),
       (''Legend: Haste'', 9105),
       (''Legend: Bloodline'', 9103),
       (''Coup de Grace'', 8014),
       (''Cut Down'', 8017),
       (''Last Stand'', 8299),
       (''Electrocute'', 8112),
       (''Predator'', 8124),
       (''Dark Harvest'', 8128),
       (''Hail of Blades'', 9923),
       (''Cheap Shot'', 8126),
       (''Taste of Blood'', 8139),
       (''Sudden Impact'', 8143),
       (''Sixth Sense'', 8137),
       (''Grisly Mementos'', 8140),
       (''Deep Ward'', 8141),
       (''Treasure Hunter'', 8135),
       (''Relentless Hunter'', 8105),
       (''Ultimate Hunter'', 8106),
       (''Summon Aery'', 8214),
       (''Arcane Comet'', 8229),
       (''Phase Rush'', 8230),
       (''Axiom Arcanist'', 8224),
       (''Manaflow Band'', 8226),
       (''Nimbus Cloak'', 8275),
       (''Transcendence'', 8210),
       (''Celerity'', 8234),
       (''Absolute Focus'', 8233),
       (''Scorch'', 8237),
       (''Waterwalking'', 8232),
       (''Gathering Storm'', 8236),
       (''Grasp of the Undying'', 8437),
       (''Aftershock'', 8439),
       (''Guardian'', 8465),
       (''Demolish'', 8446),
       (''Font of Life'', 8463),
       (''Shield Bash'', 8401),
       (''Conditioning'', 8429),
       (''Second Wind'', 8444),
       (''Bone Plating'', 8473),
       (''Overgrowth'', 8451),
       (''Revitalize'', 8453),
       (''Unflinching'', 8242),
       (''Glacial Augment'', 8351),
       (''Unsealed Spellbook'', 8360),
       (''First Strike'', 8369),
       (''Hextech Flashtraption'', 8306),
       (''Magical Footwear'', 8304),
       (''Cash Back'', 8321),
       (''Triple Tonic'', 8313),
       (''Time Warp Tonic'', 8352),
       (''Biscuit Delivery'', 8345),
       (''Cosmic Insight'', 8347),
       (''Approach Velocity'', 8410),
       (''Jack Of All Trades'', 8316),
       (''Adaptive Force'', 5008),
       (''Attack Speed'', 5005),
       (''Ability Haste'', 5007),
       (''Move Speed'', 5010),
       (''Tenacity and Slow Resist'', 5013),
       (''Health'', 5011),
       (''Health Scaling'', 5001)]\<rparr>"

text \<open>
  \<open>RuneManager.find_rune_id\<close>. \<open>fuzzy_match\<close> is the loop over
  \<open>self.rune_id_map.items()\<close>, which returns at the first entry that matches.
\<close>

definition fuzzy :: "string \<Rightarrow> string \<Rightarrow> bool" where
  "fuzzy known_name rune_name \<longleftrightarrow>
     str_in (lower known_name) (lower rune_name) \<or> str_in (lower rune_name) (lower known_name)"

fun fuzzy_match :: "(string \<times> int) list \<Rightarrow> string \<Rightarrow> int option" where
  "fuzzy_match [] rune_name = None"
| "fuzzy_match ((known_name, known_id) # rest) rune_name =
     (if fuzzy known_name rune_name then Some known_id else fuzzy_match rest rune_name)"

definition find_rune_id :: "rune_manager \<Rightarrow> string \<Rightarrow> int option" where
  "find_rune_id self rune_name =
     (case map_of (rune_id_map self) rune_name of
        Some known_id \<Rightarrow> Some known_id
      | None \<Rightarrow> fuzzy_match (rune_id_map self) rune_name)"

section \<open>The objects of the service and the world around them\<close>

text \<open>\<open>LCUConnection\<close>: the connected flag and whether a client process is tracked.\<close>

record lcu_connection =
  connected :: bool
  process :: bool

text \<open>
  The session-scoped fields of \<open>ChampionSelectMonitor\<close>. \<open>processed_action_ids\<close> is a
  Python set; ids are compared structurally.
\<close>

record champion_select_monitor =
  current_champion :: json
  current_phase :: json
  processed_action_ids :: "json set"

text \<open>
  The requests the service sends. An endpoint keeps the values the source formats into
  the path: \<open>/lol-perks/v1/pages\<close>, \<open>/lol-perks/v1/pages/{page_id}\<close>,
  \<open>/lol-summoner/v1/current-summoner\<close> and
  \<open>/lol-champions/v1/inventories/{local_player_id}/champions/{champion_id}\<close>.
\<close>

datatype http_method = GET | PUT | POST

datatype endpoint =
    Perks_Pages
  | Perks_Page json
  | Current_Summoner
  | Champion_Of json json

record page_body =
  name :: string
  primaryStyleId :: int
  subStyleId :: int
  selectedPerkIds :: "int list"
  current :: bool

type_synonym http_call = "http_method \<times> endpoint \<times> page_body option"

text \<open>
  What \<open>requests.request\<close> does with a call: it raises a \<open>RequestException\<close>
  (connection refused, timeout), or it returns a response with a status code and a body.
  The body is \<open>None\<close> when \<open>response.text\<close> is empty and the decoded JSON otherwise;
  the client answers in JSON, so a body that does not decode is left out.
\<close>

datatype http_outcome =
    Transport_Error
  | Response nat "json option"

text \<open>What the scan of the process table in \<open>find_league_client\<close> finds.\<close>

datatype scan_result =
    No_Client
  | Client_Without_Credentials
  | Client_Ready

text \<open>
  What \<open>get_runes_headless\<close> does: it raises, or it returns after writing
  \<open>rune_data.json\<close> (\<open>Some\<close> record) or leaving the file as it was (\<open>None\<close>).
\<close>

datatype scrape_outcome =
    Scrape_Raised
  | Scrape_Returned "scraped_data option"

text \<open>
  The surroundings answer every interaction; the answer may depend on how many
  interactions of that kind came before, and on the request.
\<close>

record env =
  http :: "nat \<Rightarrow> http_call \<Rightarrow> http_outcome"
  is_running :: "nat \<Rightarrow> bool"
  scan :: "nat \<Rightarrow> scan_result"
  scrape :: "nat \<Rightarrow> string \<Rightarrow> scrape_outcome"

text \<open>
  The part of the world the service reads and writes: the file \<open>rune_data.json\<close>
  (\<open>None\<close> when it does not exist or does not decode; the loader returns false in both
  cases), and the record of what the service did: the HTTP calls sent, the number of
  calls of \<open>find_league_client\<close> and of the scraper, and the pairs
  \<open>(champion_name, action_id)\<close> for which \<open>on_champion_locked\<close> went on to apply runes.
\<close>

record world =
  rune_data_json :: "scraped_data option"
  http_log :: "http_call list"
  discoveries :: nat
  scrapes :: nat
  locked_in :: "(json \<times> json) list"

text \<open>
  The service: the one connection that the rune manager and the monitor share, the rune
  manager, the monitor, and the world. Logging and the locks are left out; the handler of
  the event channel runs one message at a time.
\<close>

record system =
  lcu :: lcu_connection
  runes :: rune_manager
  monitor :: champion_select_monitor
  world :: world

text \<open>The exceptions the modelled code can raise.\<close>

datatype error = TypeError | KeyError | IndexError | AttributeError | ScraperError

section \<open>RuneManager.load_rune_data_from_file\<close>

text \<open>
  The three loops that append the ids of the names that resolve. \<open>if rune_id:\<close> also
  skips an id that is \<open>0\<close>.
\<close>

fun append_resolved :: "rune_manager \<Rightarrow> string list \<Rightarrow> int list \<Rightarrow> int list" where
  "append_resolved self [] selected = selected"
| "append_resolved self (rune_name # rest) selected =
     (case find_rune_id self rune_name of
        None \<Rightarrow> append_resolved self rest selected
      | Some rune_id \<Rightarrow>
          if rune_id \<noteq> 0 then append_resolved self rest (selected @ [rune_id])
          else append_resolved self rest selected)"

text \<open>\<open>dict.get(key, default)\<close> on a table.\<close>

definition dict_get :: "(string \<times> int) list \<Rightarrow> string \<Rightarrow> int \<Rightarrow> int" where
  "dict_get d k dflt = (case map_of d k of None \<Rightarrow> dflt | Some v \<Rightarrow> v)"

text \<open>The value of an optional string, \<open>""\<close> when absent; both are falsy.\<close>

definition str_or_empty :: "string option \<Rightarrow> string" where
  "str_or_empty x = (case x of None \<Rightarrow> [] | Some v \<Rightarrow> v)"

definition load_rune_data_from_file :: "string \<Rightarrow> system \<Rightarrow> bool \<times> system" where
  "load_rune_data_from_file champion_name s =
     (case rune_data_json (world s) of
        None \<Rightarrow> (False, s)
      | Some scraped \<Rightarrow>
          let self = runes s in
          if lower (str_or_empty (champion scraped)) \<noteq> lower champion_name then (False, s)
          else if str_or_empty (primary_path scraped) = []
                  \<or> str_or_empty (secondary_path scraped) = [] then (False, s)
          else
            let primary_style_id =
                  dict_get (path_id_map self) (str_or_empty (primary_path scraped)) 8000;
                secondary_style_id =
                  dict_get (path_id_map self) (str_or_empty (secondary_path scraped)) 8400
            in
            if str_or_empty (keystone scraped) = [] then (False, s)
            else
              (case find_rune_id self (str_or_empty (keystone scraped)) of
                 None \<Rightarrow> (False, s)
               | Some keystone_id \<Rightarrow>
                   if keystone_id = 0 then (False, s)
                   else
                     let selected =
                           append_resolved self (stat_shards scraped)
                             (append_resolved self (secondary_runes scraped)
                               (append_resolved self (primary_runes scraped) [keystone_id]))
                     in
                     if length selected \<noteq> 9 then (False, s)
                     else
                       (True,
                        s\<lparr>runes := self\<lparr>rune_data := (rune_data self)(champion_name \<mapsto>
                            \<lparr>primary_style = primary_style_id,
                             sub_style = secondary_style_id,
                             selected_perks = selected\<rparr>)\<rparr>\<rparr>)))"

section \<open>LCUConnection\<close>

text \<open>
  \<open>LCUConnection.find_league_client\<close>. It returns at once when the service is
  connected and the tracked process still runs; otherwise it clears the flag and scans the
  process table. A client process found is tracked, with or without its two parameters;
  the flag is set when both are there. The token and the port only build the headers and
  the URL of later calls, so they are left out.
\<close>

definition find_league_client :: "env \<Rightarrow> system \<Rightarrow> bool \<times> system" where
  "find_league_client e s =
     (let n = discoveries (world s);
          s1 = s\<lparr>world := (world s)\<lparr>discoveries := n + 1\<rparr>\<rparr>
      in
      if connected (lcu s) \<and> process (lcu s) \<and> is_running e n then (True, s1)
      else
        (case scan e n of
           No_Client \<Rightarrow> (False, s1\<lparr>lcu := (lcu s)\<lparr>connected := False\<rparr>\<rparr>)
         | Client_Without_Credentials \<Rightarrow>
             (False, s1\<lparr>lcu := \<lparr>connected = False, process = True\<rparr>\<rparr>)
         | Client_Ready \<Rightarrow>
             (True, s1\<lparr>lcu := \<lparr>connected = True, process = True\<rparr>\<rparr>)))"

text \<open>
  \<open>LCUConnection.request\<close>. \<open>send\<close> is the \<open>try\<close> block: one call of
  \<open>requests.request\<close>, recorded in \<open>http_log\<close>. \<open>raise_for_status\<close> raises for the
  statuses from 400 to 599. A body that decodes to \<open>null\<close> makes \<open>response.json()\<close>
  return \<open>None\<close>.
\<close>

definition send :: "env \<Rightarrow> http_call \<Rightarrow> system \<Rightarrow> json \<times> system" where
  "send e call s =
     (let n = length (http_log (world s));
          s1 = s\<lparr>world := (world s)\<lparr>http_log := http_log (world s) @ [call]\<rparr>\<rparr>
      in
      case http e n call of
        Transport_Error \<Rightarrow> (JNull, s1\<lparr>lcu := (lcu s1)\<lparr>connected := False\<rparr>\<rparr>)
      | Response status_code body \<Rightarrow>
          if status_code = 404 then (JNull, s1)
          else if 400 \<le> status_code \<and> status_code < 600
            then (JNull, s1\<lparr>lcu := (lcu s1)\<lparr>connected := False\<rparr>\<rparr>)
          else (case body of None \<Rightarrow> (JObj [], s1) | Some j \<Rightarrow> (j, s1)))"

definition request ::
  "env \<Rightarrow> http_method \<Rightarrow> endpoint \<Rightarrow> page_body option \<Rightarrow> system \<Rightarrow> json \<times> system" where
  "request e method ep data s =
     (if connected (lcu s) then send e (method, ep, data) s
      else
        (case find_league_client e s of
           (False, s1) \<Rightarrow> (JNull, s1)
         | (True, s1) \<Rightarrow> send e (method, ep, data) s1))"

section \<open>Python operations on decoded values\<close>

text \<open>\<open>x[key]\<close> with a string key: only a dict that has the key answers.\<close>

fun getitem :: "json \<Rightarrow> string \<Rightarrow> error + json" where
  "getitem (JObj kvs) k = (case map_of kvs k of None \<Rightarrow> Inl KeyError | Some v \<Rightarrow> Inr v)"
| "getitem x k = Inl TypeError"

text \<open>\<open>x.get(key)\<close>: only a dict has the method; an absent key gives \<open>None\<close>.\<close>

fun py_get :: "json \<Rightarrow> string \<Rightarrow> error + json" where
  "py_get (JObj kvs) k = (case map_of kvs k of None \<Rightarrow> Inr JNull | Some v \<Rightarrow> Inr v)"
| "py_get x k = Inl AttributeError"

text \<open>\<open>x[0]\<close>.\<close>

fun getitem0 :: "json \<Rightarrow> error + json" where
  "getitem0 (JList []) = Inl IndexError"
| "getitem0 (JList (x # xs)) = Inr x"
| "getitem0 (JStr []) = Inl IndexError"
| "getitem0 (JStr (c # cs)) = Inr (JStr [c])"
| "getitem0 (JObj kvs) = Inl KeyError"
| "getitem0 x = Inl TypeError"

text \<open>The values \<open>for p in x\<close> runs through: elements, keys or characters.\<close>

fun py_iter :: "json \<Rightarrow> error + json list" where
  "py_iter (JList xs) = Inr xs"
| "py_iter (JObj kvs) = Inr (map (\<lambda>kv. JStr (fst kv)) kvs)"
| "py_iter (JStr cs) = Inr (map (\<lambda>c. JStr [c]) cs)"
| "py_iter x = Inl TypeError"

text \<open>\<open>x.startswith(tag)\<close>: only a string has the method.\<close>

fun startswith :: "json \<Rightarrow> string \<Rightarrow> error + bool" where
  "startswith (JStr cs) tag = Inr (starts_with cs tag)"
| "startswith x tag = Inl AttributeError"

text \<open>\<open>key in x\<close> for a string key.\<close>

fun py_contains :: "string \<Rightarrow> json \<Rightarrow> error + bool" where
  "py_contains k (JObj kvs) = Inr (k \<in> set (map fst kvs))"
| "py_contains k (JList xs) = Inr (JStr k \<in> set xs)"
| "py_contains k (JStr cs) = Inr (str_in k cs)"
| "py_contains k x = Inl TypeError"

text \<open>Lists and dicts cannot be members of a set.\<close>

fun hashable :: "json \<Rightarrow> bool" where
  "hashable (JList xs) = False"
| "hashable (JObj kvs) = False"
| "hashable x = True"

section \<open>RuneManager: fetching and applying\<close>

text \<open>
  \<open>RuneManager.fetch_runes_for_champion\<close>, on its first path: \<open>headless_scraper\<close> is
  a module of this repository, so its import succeeds and the fallbacks taken on
  \<open>ImportError\<close> are not reached. An exception of the scraper is not caught here.
\<close>

definition fetch_runes_for_champion ::
  "env \<Rightarrow> string \<Rightarrow> system \<Rightarrow> (error + bool) \<times> system" where
  "fetch_runes_for_champion e champion_name s =
     (let n = scrapes (world s);
          s1 = s\<lparr>world := (world s)\<lparr>scrapes := n + 1\<rparr>\<rparr>
      in
      case scrape e n (lower champion_name) of
        Scrape_Raised \<Rightarrow> (Inl ScraperError, s1)
      | Scrape_Returned written \<Rightarrow>
          let s2 = (case written of
                      None \<Rightarrow> s1
                    | Some r \<Rightarrow> s1\<lparr>world := (world s1)\<lparr>rune_data_json := Some r\<rparr>\<rparr>);
              (ok, s3) = load_rune_data_from_file champion_name s2
          in (Inr ok, s3))"

text \<open>
  \<open>next((p for p in pages if p['name'].startswith('[AUTO]')), None)\<close>: the first
  page whose name carries the tag; the generator stops there, and an element before it
  that is not a dict with a string name makes it raise.
\<close>

fun first_auto_page :: "json list \<Rightarrow> error + json" where
  "first_auto_page [] = Inr JNull"
| "first_auto_page (p # ps) =
     (case getitem p ''name'' of
        Inl x \<Rightarrow> Inl x
      | Inr page_name \<Rightarrow>
          (case startswith page_name ''[AUTO]'' of
             Inl x \<Rightarrow> Inl x
           | Inr True \<Rightarrow> Inr p
           | Inr False \<Rightarrow> first_auto_page ps))"

text \<open>
  \<open>page_id = auto_rune_page['id'] if auto_rune_page else pages[0]['id']\<close>, after the
  search.
\<close>

definition choose_page_id :: "json \<Rightarrow> error + json" where
  "choose_page_id pages =
     (case py_iter pages of
        Inl x \<Rightarrow> Inl x
      | Inr ps \<Rightarrow>
          (case first_auto_page ps of
             Inl x \<Rightarrow> Inl x
           | Inr auto_rune_page \<Rightarrow>
               if truthy auto_rune_page then getitem auto_rune_page ''id''
               else (case getitem0 pages of Inl x \<Rightarrow> Inl x | Inr p0 \<Rightarrow> getitem p0 ''id'')))"

definition page_payload :: "string \<Rightarrow> rune_setup \<Rightarrow> page_body" where
  "page_payload champion_name rune_setup = \<lparr>
     name = ''[AUTO] '' @ champion_name @ '' - auto'',
     primaryStyleId = primary_style rune_setup,
     subStyleId = sub_style rune_setup,
     selectedPerkIds = selected_perks rune_setup,
     current = True\<rparr>"

text \<open>
  The \<open>try\<close> block of \<open>apply_runes_for_champion\<close>: update the chosen page, or create
  one when there is none. Every exception raised in it is caught and gives \<open>False\<close>.
\<close>

definition write_page :: "env \<Rightarrow> string \<Rightarrow> rune_setup \<Rightarrow> json \<Rightarrow> system \<Rightarrow> bool \<times> system" where
  "write_page e champion_name rune_setup pages s =
     (if truthy pages then
        (case choose_page_id pages of
           Inl x \<Rightarrow> (False, s)
         | Inr page_id \<Rightarrow>
             let (result, s1) =
                   request e PUT (Perks_Page page_id) (Some (page_payload champion_name rune_setup)) s
             in (result \<noteq> JNull, s1))
      else
        let (result, s1) =
              request e POST Perks_Pages (Some (page_payload champion_name rune_setup)) s
        in
        if \<not> truthy result then (False, s1)
        else
          (case py_contains ''id'' result of
             Inl x \<Rightarrow> (False, s1)
           | Inr False \<Rightarrow> (False, s1)
           | Inr True \<Rightarrow>
               (case getitem result ''id'' of
                  Inl x \<Rightarrow> (False, s1)
                | Inr new_id \<Rightarrow> (True, s1\<lparr>runes := (runes s1)\<lparr>current_page_id := new_id\<rparr>\<rparr>))))"

text \<open>
  The rest of \<open>apply_runes_for_champion\<close> once the champion is in \<open>rune_data\<close>: the
  checks of the stored setup, the read of the pages (\<open>request(...) or []\<close>) and the write.
\<close>

definition apply_stored :: "env \<Rightarrow> string \<Rightarrow> system \<Rightarrow> bool \<times> system" where
  "apply_stored e champion_name s =
     (case rune_data (runes s) champion_name of
        None \<Rightarrow> (False, s)
      | Some rune_setup \<Rightarrow>
          if primary_style rune_setup = 0 \<or> sub_style rune_setup = 0 then (False, s)
          else if length (selected_perks rune_setup) \<noteq> 9 then (False, s)
          else
            let (response, s1) = request e GET Perks_Pages None s;
                pages = (if truthy response then response else JList [])
            in write_page e champion_name rune_setup pages s1)"

definition apply_runes_for_champion ::
  "env \<Rightarrow> string \<Rightarrow> system \<Rightarrow> (error + bool) \<times> system" where
  "apply_runes_for_champion e champion_name s =
     (if champion_name \<notin> dom (rune_data (runes s)) then
        (case fetch_runes_for_champion e champion_name s of
           (Inl x, s1) \<Rightarrow> (Inl x, s1)
         | (Inr False, s1) \<Rightarrow> (Inr False, s1)
         | (Inr True, s1) \<Rightarrow>
             (case apply_stored e champion_name s1 of (ok, s2) \<Rightarrow> (Inr ok, s2)))
      else
        (case apply_stored e champion_name s of (ok, s2) \<Rightarrow> (Inr ok, s2)))"

section \<open>ChampionSelectMonitor\<close>

text \<open>
  \<open>ChampionSelectMonitor.on_champion_locked\<close>. The membership test on the first line
  stands outside the \<open>try\<close> block: for an id that cannot be hashed it raises
  \<open>TypeError\<close>, and nothing is written. Otherwise the id joins
  \<open>processed_action_ids\<close> before anything is applied, and the pair is recorded in
  \<open>locked_in\<close> at the point where the source logs the lock-in. The \<open>try\<close> block
  catches every exception of the attempt and of the retry. A champion name that is not a
  string makes the first use of it raise inside the block. The result is the exception
  that leaves the handler, if any, and the state reached.
\<close>

definition on_champion_locked ::
  "env \<Rightarrow> json \<Rightarrow> json \<Rightarrow> system \<Rightarrow> error option \<times> system" where
  "on_champion_locked e champion_name action_id s =
     (if \<not> hashable action_id then (Some TypeError, s)
      else if action_id \<in> processed_action_ids (monitor s) then (None, s)
      else
        let s1 = s\<lparr>monitor := (monitor s)\<lparr>processed_action_ids :=
                      insert action_id (processed_action_ids (monitor s))\<rparr>,
                   world := (world s)\<lparr>locked_in :=
                      locked_in (world s) @ [(champion_name, action_id)]\<rparr>\<rparr>
        in
        (None,
         case champion_name of
           JStr c \<Rightarrow>
             (case apply_runes_for_champion e c s1 of
                (Inl x, s2) \<Rightarrow> s2
              | (Inr True, s2) \<Rightarrow> s2
              | (Inr False, s2) \<Rightarrow>
                  (case fetch_runes_for_champion e c s2 of
                     (Inl x, s3) \<Rightarrow> s3
                   | (Inr False, s3) \<Rightarrow> s3
                   | (Inr True, s3) \<Rightarrow> snd (apply_runes_for_champion e c s3)))
         | _ \<Rightarrow> s1))"

text \<open>
  A message of the event channel, \<open>[opcode, eventName, {uri, data}]\<close>, as far as the
  handler reads it. A field read with \<open>.get\<close> is \<open>JNull\<close> when absent. \<open>Short_Message\<close>
  is a message with fewer than three elements; the data of an event is \<open>None\<close> when the
  key is absent or the dict is empty. The team is a list of dicts and the actions are a
  list of lists of dicts, as the client sends them.
\<close>

record action =
  actorCellId :: json
  championId :: json
  action_id :: json
  completed :: json

record player =
  summonerId :: json
  cellId :: json

record session_data =
  timer_phase :: json
  myTeam :: "player list"
  actions :: "action list list"

datatype ws_message =
    Short_Message
  | Event json "session_data option"

text \<open>The loop over \<open>myTeam\<close>, which stops at the first player with the local id.\<close>

fun find_local_cell :: "json \<Rightarrow> player list \<Rightarrow> json" where
  "find_local_cell local_player_id [] = JNull"
| "find_local_cell local_player_id (p # ps) =
     (if summonerId p = local_player_id then cellId p
      else find_local_cell local_player_id ps)"

text \<open>
  The body of the inner loop over the actions. The result is the exception that ends
  the handler, if any, and the state reached.
\<close>

definition handle_action ::
  "env \<Rightarrow> json \<Rightarrow> json \<Rightarrow> action \<Rightarrow> system \<Rightarrow> error option \<times> system" where
  "handle_action e local_player_id local_cell a s =
     (if actorCellId a \<noteq> local_cell then (None, s)
      else if \<not> truthy (championId a) \<or> championId a = JInt 0 then (None, s)
      else
        let (champion_data, s1) =
              request e GET (Champion_Of local_player_id (championId a)) None s
        in
        if \<not> truthy champion_data then (None, s1)
        else
          (case py_get champion_data ''name'' of
             Inl x \<Rightarrow> (Some x, s1)
           | Inr champion_name \<Rightarrow>
               if \<not> truthy champion_name then (None, s1)
               else
                 let s2 = (if champion_name \<noteq> current_champion (monitor s1)
                           then s1\<lparr>monitor := (monitor s1)\<lparr>current_champion := champion_name,
                                     processed_action_ids := {}\<rparr>\<rparr>
                           else s1)
                 in
                 if \<not> truthy (completed a) then (None, s2)
                 else if \<not> hashable (action_id a) then (Some TypeError, s2)
                 else if action_id a \<notin> processed_action_ids (monitor s2)
                   then on_champion_locked e champion_name (action_id a) s2
                 else (None, s2)))"

fun handle_actions ::
  "env \<Rightarrow> json \<Rightarrow> json \<Rightarrow> action list \<Rightarrow> system \<Rightarrow> error option \<times> system" where
  "handle_actions e local_player_id local_cell [] s = (None, s)"
| "handle_actions e local_player_id local_cell (a # rest) s =
     (case handle_action e local_player_id local_cell a s of
        (Some x, s1) \<Rightarrow> (Some x, s1)
      | (None, s1) \<Rightarrow> handle_actions e local_player_id local_cell rest s1)"

fun handle_action_groups ::
  "env \<Rightarrow> json \<Rightarrow> json \<Rightarrow> action list list \<Rightarrow> system \<Rightarrow> error option \<times> system" where
  "handle_action_groups e local_player_id local_cell [] s = (None, s)"
| "handle_action_groups e local_player_id local_cell (action_group # rest) s =
     (case handle_actions e local_player_id local_cell action_group s of
        (Some x, s1) \<Rightarrow> (Some x, s1)
      | (None, s1) \<Rightarrow> handle_action_groups e local_player_id local_cell rest s1)"

text \<open>\<open>handle_ws_message\<close>, the callback \<open>ChampionSelectMonitor.start\<close> registers.\<close>

definition handle_ws_message :: "env \<Rightarrow> ws_message \<Rightarrow> system \<Rightarrow> error option \<times> system" where
  "handle_ws_message e message s =
     (case message of
        Short_Message \<Rightarrow> (None, s)
      | Event uri data \<Rightarrow>
          if uri \<noteq> JStr ''/lol-champ-select/v1/session'' then (None, s)
          else
            let phase = (case data of None \<Rightarrow> JNull | Some d \<Rightarrow> timer_phase d);
                changed = (truthy phase \<and> phase \<noteq> current_phase (monitor s));
                s1 = (if changed then s\<lparr>monitor := (monitor s)\<lparr>current_phase := phase\<rparr>\<rparr> else s)
            in
            if changed \<and> phase = JStr ''None''
              then (None, s1\<lparr>monitor := (monitor s1)\<lparr>current_champion := JNull,
                                processed_action_ids := {}\<rparr>\<rparr>)
            else
              (case data of
                 None \<Rightarrow> (None, s1)
               | Some d \<Rightarrow>
                   if \<not> truthy (current_phase (monitor s1)) then (None, s1)
                   else
                     let (local_player, s2) = request e GET Current_Summoner None s1 in
                     if \<not> truthy local_player then (None, s2)
                     else
                       (case py_get local_player ''summonerId'' of
                          Inl x \<Rightarrow> (Some x, s2)
                        | Inr local_player_id \<Rightarrow>
                            let local_cell = find_local_cell local_player_id (myTeam d) in
                            if local_cell = JNull then (None, s2)
                            else handle_action_groups e local_player_id local_cell
                                   (actions d) s2)))"

text \<open>
  The event channel delivers the messages one after the other on its own thread; an
  exception of the handler ends that delivery only, and the fields keep what the handler
  had written.
\<close>

fun deliver_all :: "env \<Rightarrow> ws_message list \<Rightarrow> system \<Rightarrow> system" where
  "deliver_all e [] s = s"
| "deliver_all e (message # rest) s = deliver_all e rest (snd (handle_ws_message e message s))"

text \<open>The objects as their constructors leave them, in a world with nothing done yet.\<close>

definition init_system :: "scraped_data option \<Rightarrow> system" where
  "init_system file = \<lparr>
     lcu = \<lparr>connected = False, process = False\<rparr>,
     runes = RuneManager_init,
     monitor = \<lparr>current_champion = JNull, current_phase = JNull, processed_action_ids = {}\<rparr>,
     world = \<lparr>rune_data_json = file, http_log = [], discoveries = 0, scrapes = 0,
              locked_in = []\<rparr>\<rparr>"

section \<open>Reference notions and concrete inputs\<close>

text \<open>
  The ids a raw record resolves to, read off the record: the keystone name, then the
  primary, secondary and stat-shard names, each in its order, keeping the names that
  \<open>find_rune_id\<close> resolves.
\<close>

definition resolved_ids :: "rune_manager \<Rightarrow> scraped_data \<Rightarrow> int list" where
  "resolved_ids self r =
     List.map_filter (find_rune_id self)
       (str_or_empty (keystone r) # primary_runes r @ secondary_runes r @ stat_shards r)"

text \<open>The raw record of the Domination and Resolve scenario, for a given subject.\<close>

definition scenario_record :: "string \<Rightarrow> scraped_data" where
  "scenario_record subject = \<lparr>
     champion = Some subject,
     primary_path = Some ''Domination'',
     secondary_path = Some ''Resolve'',
     keystone = Some ''Electrocute'',
     primary_runes = [''Cheap Shot'', ''Sudden Impact'', ''Treasure Hunter''],
     secondary_runes = [''Second Wind'', ''Bone Plating''],
     stat_shards = [''Adaptive Force'', ''Adaptive Force'', ''Health'']\<rparr>"

definition scenario_setup :: rune_setup where
  "scenario_setup = \<lparr>primary_style = 8100, sub_style = 8400,
     selected_perks = [8112, 8126, 8143, 8135, 8444, 8473, 5008, 5008, 5011]\<rparr>"

text \<open>A stored setup that passes the checks \<open>apply_runes_for_champion\<close> repeats.\<close>

definition valid_setup :: "rune_setup \<Rightarrow> bool" where
  "valid_setup rune_setup \<longleftrightarrow>
     primary_style rune_setup \<noteq> 0 \<and> sub_style rune_setup \<noteq> 0
     \<and> length (selected_perks rune_setup) = 9"

text \<open>
  A remote page as the client lists it: a dict with a string name and an id. A page is
  tagged when its name starts with \<open>[AUTO]\<close>.
\<close>

definition well_formed_page :: "json \<Rightarrow> bool" where
  "well_formed_page p \<longleftrightarrow>
     (case getitem p ''name'' of
        Inr (JStr page_name) \<Rightarrow> (case getitem p ''id'' of Inr i \<Rightarrow> True | Inl x \<Rightarrow> False)
      | _ \<Rightarrow> False)"

definition is_tagged :: "json \<Rightarrow> bool" where
  "is_tagged p \<longleftrightarrow>
     (case getitem p ''name'' of
        Inr (JStr page_name) \<Rightarrow> prefix ''[AUTO]'' page_name
      | _ \<Rightarrow> False)"

definition page_id :: "json \<Rightarrow> json" where
  "page_id p = (case getitem p ''id'' of Inr i \<Rightarrow> i | Inl x \<Rightarrow> JNull)"

definition has_id :: "json \<Rightarrow> bool" where
  "has_id result \<longleftrightarrow> (case getitem result ''id'' of Inr i \<Rightarrow> True | Inl x \<Rightarrow> False)"

text \<open>
  Surroundings in which the client process is running and found by every scan; the HTTP
  exchanges and the scraper are given.
\<close>

definition healthy_env ::
  "(nat \<Rightarrow> http_call \<Rightarrow> http_outcome) \<Rightarrow> (nat \<Rightarrow> string \<Rightarrow> scrape_outcome) \<Rightarrow> env" where
  "healthy_env h sc =
     \<lparr>http = h, is_running = (\<lambda>n. True), scan = (\<lambda>n. Client_Ready), scrape = sc\<rparr>"

text \<open>HTTP exchanges that follow a list of outcomes, and fail once the list is used up.\<close>

definition script :: "http_outcome list \<Rightarrow> nat \<Rightarrow> http_call \<Rightarrow> http_outcome" where
  "script outcomes n call = (if n < length outcomes then outcomes ! n else Transport_Error)"

definition ok_200 :: "json \<Rightarrow> http_outcome" where
  "ok_200 j = Response 200 (Some j)"

text \<open>A scraper that returns without writing the file.\<close>

definition no_scrape :: "nat \<Rightarrow> string \<Rightarrow> scrape_outcome" where
  "no_scrape n c = Scrape_Returned None"

text \<open>A connected service that holds the scenario setup for one champion.\<close>

definition ready_system :: "string \<Rightarrow> system" where
  "ready_system c = (init_system None)\<lparr>
     lcu := \<lparr>connected = True, process = True\<rparr>,
     runes := RuneManager_init\<lparr>rune_data := [c \<mapsto> scenario_setup]\<rparr>\<rparr>"

definition untagged_page :: json where
  "untagged_page = JObj [(''id'', JInt 1), (''name'', JStr ''My page'')]"

definition tagged_page :: json where
  "tagged_page = JObj [(''id'', JInt 2), (''name'', JStr ''[AUTO] Ahri - auto'')]"

definition created_page :: "int \<Rightarrow> json" where
  "created_page i = JObj [(''id'', JInt i), (''name'', JStr ''[AUTO] Zed - auto'')]"

text \<open>The client lists an untagged and a tagged page and accepts the update.\<close>

definition env_two_pages :: env where
  "env_two_pages =
     healthy_env (script [ok_200 (JList [untagged_page, tagged_page]), ok_200 tagged_page]) no_scrape"

text \<open>The client lists no page and answers the create with an empty body.\<close>

definition env_empty_reply :: env where
  "env_empty_reply = healthy_env (script [ok_200 (JList []), Response 200 None]) no_scrape"

text \<open>
  The client lists no page and creates page 5; the next read of the list fails, and the
  next create gives page 6.
\<close>

definition env_read_fails :: env where
  "env_read_fails = healthy_env
     (script [ok_200 (JList []), ok_200 (created_page 5), Transport_Error, ok_200 (created_page 6)])
     no_scrape"

text \<open>The client lists no page and creates page 5; the next read lists that page.\<close>

definition env_create_update :: env where
  "env_create_update = healthy_env
     (script [ok_200 (JList []), ok_200 (created_page 5), ok_200 (JList [created_page 5]),
              ok_200 (created_page 5)])
     no_scrape"

definition env_not_found :: env where
  "env_not_found = healthy_env (script [Response 404 None]) no_scrape"

definition env_server_error :: env where
  "env_server_error = healthy_env (script [Response 500 None]) no_scrape"

text \<open>
  Two states agree on the fields of the monitor and on the triggers recorded so far.
\<close>

definition same_session :: "system \<Rightarrow> system \<Rightarrow> bool" where
  "same_session s s' \<longleftrightarrow>
     monitor s' = monitor s \<and> locked_in (world s') = locked_in (world s)"

text \<open>
  A client that is found by every scan, always answers the identity lookup with a dict
  that holds the same summoner id and always answers the champion lookup with a dict that
  holds the same non-empty name: one local player and one unchanged subject. Nothing is
  assumed of its other answers.
\<close>

definition steady_client :: "env \<Rightarrow> json \<Rightarrow> string \<Rightarrow> bool" where
  "steady_client e summoner_id c \<longleftrightarrow>
     c \<noteq> []
     \<and> (\<forall>n. scan e n = Client_Ready)
     \<and> (\<forall>n. \<exists>j. http e n (GET, Current_Summoner, None) = Response 200 (Some j)
              \<and> truthy j \<and> py_get j ''summonerId'' = Inr summoner_id)
     \<and> (\<forall>n champion_id. \<exists>j.
            http e n (GET, Champion_Of summoner_id champion_id, None) = Response 200 (Some j)
              \<and> truthy j \<and> py_get j ''name'' = Inr (JStr c))"

text \<open>
  The action is the local player's and names a champion; among these, the completed
  ones are the lock-ins the handler looks at, in the order of the nested loops.
\<close>

definition selects :: "json \<Rightarrow> action \<Rightarrow> bool" where
  "selects local_cell a \<longleftrightarrow>
     actorCellId a = local_cell \<and> truthy (championId a) \<and> championId a \<noteq> JInt 0"

definition locked_ids :: "json \<Rightarrow> action list \<Rightarrow> json list" where
  "locked_ids local_cell as =
     map action_id (filter (\<lambda>a. selects local_cell a \<and> truthy (completed a)) as)"

text \<open>
  The ids of the completed actions of the local player that a message carries, when the
  message is a session event whose team lists the local player.
\<close>

definition delivered_ids :: "json \<Rightarrow> ws_message \<Rightarrow> json list" where
  "delivered_ids summoner_id message =
     (case message of
        Short_Message \<Rightarrow> []
      | Event uri data \<Rightarrow>
          if uri \<noteq> JStr ''/lol-champ-select/v1/session'' then []
          else
            (case data of
               None \<Rightarrow> []
             | Some d \<Rightarrow>
                 if find_local_cell summoner_id (myTeam d) = JNull then []
                 else locked_ids (find_local_cell summoner_id (myTeam d)) (concat (actions d))))"

text \<open>
  A message that does not end the session: a session event with data carries a phase,
  the phase is not the terminal \<open>None\<close>, and the ids of its actions are hashable.
\<close>

definition in_session :: "ws_message \<Rightarrow> bool" where
  "in_session message \<longleftrightarrow>
     (case message of
        Short_Message \<Rightarrow> True
      | Event uri data \<Rightarrow>
          (case data of
             None \<Rightarrow> True
           | Some d \<Rightarrow>
               uri = JStr ''/lol-champ-select/v1/session'' \<longrightarrow>
                 truthy (timer_phase d) \<and> timer_phase d \<noteq> JStr ''None''
                 \<and> (\<forall>a \<in> set (concat (actions d)). hashable (action_id a))))"

text \<open>
  The triggers a run of lock-ins adds when the ids in \<open>P\<close> are already processed:
  one for each id at its first occurrence outside \<open>P\<close>.
\<close>

fun fresh :: "json \<Rightarrow> json set \<Rightarrow> json list \<Rightarrow> (json \<times> json) list" where
  "fresh ch P [] = []"
| "fresh ch P (x # xs) =
     (if x \<in> P then fresh ch P xs else (ch, x) # fresh ch (insert x P) xs)"

text \<open>
  The triggers recorded between two states, and how many of them carry a given action
  id.
\<close>

definition triggers_since :: "system \<Rightarrow> system \<Rightarrow> (json \<times> json) list" where
  "triggers_since s s' = drop (length (locked_in (world s))) (locked_in (world s'))"

definition fired :: "json \<Rightarrow> (json \<times> json) list \<Rightarrow> nat" where
  "fired a triggers = length (filter (\<lambda>t. snd t = a) triggers)"

text \<open>
  What delivering lock-ins with the ids \<open>ids\<close> for the subject \<open>c\<close> does to the
  session state.
\<close>

definition advances :: "string \<Rightarrow> json list \<Rightarrow> system \<Rightarrow> system \<Rightarrow> bool" where
  "advances c ids s s' \<longleftrightarrow>
     processed_action_ids (monitor s') = processed_action_ids (monitor s) \<union> set ids
     \<and> locked_in (world s') =
         locked_in (world s) @ fresh (JStr c) (processed_action_ids (monitor s)) ids
     \<and> (current_champion (monitor s') = JStr c \<or> processed_action_ids (monitor s') = {})"

text \<open>
  A client in champion select: the local summoner has id 42 and every champion id
  resolves to \<open>Zed\<close>; the calls on rune pages fail. With \<open>no_scrape\<close> and no
  \<open>rune_data.json\<close>, applying runes fails.
\<close>

definition lobby_http :: "nat \<Rightarrow> http_call \<Rightarrow> http_outcome" where
  "lobby_http n call =
     (case fst (snd call) of
        Current_Summoner \<Rightarrow> Response 200 (Some (JObj [(''summonerId'', JInt 42)]))
      | Champion_Of summoner_id champion_id \<Rightarrow>
          Response 200 (Some (JObj [(''name'', JStr ''Zed'')]))
      | _ \<Rightarrow> Transport_Error)"

definition env_lobby :: env where
  "env_lobby = healthy_env lobby_http no_scrape"

text \<open>
  A session event in which the local player, in cell 3, has completed action 7 on
  champion 238; the data of the event that ends the session; a monitor in the middle of a
  session with a given set of processed ids.
\<close>

definition lock_data :: session_data where
  "lock_data = \<lparr>
     timer_phase = JStr ''BAN_PICK'',
     myTeam = [\<lparr>summonerId = JInt 42, cellId = JInt 3\<rparr>],
     actions = [[\<lparr>actorCellId = JInt 3, championId = JInt 238, action_id = JInt 7,
                  completed = JBool True\<rparr>]]\<rparr>"

definition lock_event :: ws_message where
  "lock_event = Event (JStr ''/lol-champ-select/v1/session'') (Some lock_data)"


definition picking_system :: "json set \<Rightarrow> system" where
  "picking_system processed = (init_system None)\<lparr>monitor :=
     \<lparr>current_champion = JStr ''Zed'', current_phase = JStr ''BAN_PICK'',
      processed_action_ids = processed\<rparr>\<rparr>"

section \<open>Properties of the resolver\<close>

lemma starts_with_prefix: "starts_with s p \<longleftrightarrow> prefix p s"
  by (induction s p rule: starts_with.induct) auto

lemma str_in_sublist: "str_in a b \<longleftrightarrow> sublist a b"
  by (induction b) (auto simp: starts_with_prefix sublist_Cons_right)

lemma fuzzy_sublist:
  "fuzzy k n \<longleftrightarrow> sublist (lower k) (lower n) \<or> sublist (lower n) (lower k)"
  by (simp add: fuzzy_def str_in_sublist)

lemma fuzzy_match_find:
  "fuzzy_match m n = map_option snd (find (\<lambda>kv. fuzzy (fst kv) n) m)"
  by (induction m n rule: fuzzy_match.induct) auto

lemma fuzzy_match_None: "fuzzy_match m n = None \<longleftrightarrow> (\<forall>kv \<in> set m. \<not> fuzzy (fst kv) n)"
  by (induction m n rule: fuzzy_match.induct) auto

lemma fuzzy_match_Some:
  "fuzzy_match m n = Some v \<longleftrightarrow>
     (\<exists>i < length m. fuzzy (fst (m ! i)) n \<and> snd (m ! i) = v
        \<and> (\<forall>j < i. \<not> fuzzy (fst (m ! j)) n))"
  unfolding fuzzy_match_find
  apply (auto simp: find_Some_iff)
   apply (metis snd_conv)
  apply (metis prod.collapse)
  done

lemma fuzzy_match_in_catalog: "fuzzy_match m n = Some v \<Longrightarrow> v \<in> snd ` set m"
  by (induction m n rule: fuzzy_match.induct) (auto split: if_splits)

lemma find_rune_id_in_catalog:
  "find_rune_id self n = Some v \<Longrightarrow> v \<in> snd ` set (rune_id_map self)"
  by (auto simp: find_rune_id_def split: option.splits
           dest: fuzzy_match_in_catalog map_of_SomeD intro: rev_image_eqI)

lemma find_rune_id_update [simp]:
  "find_rune_id (self\<lparr>rune_data := rd\<rparr>) n = find_rune_id self n"
  "find_rune_id (self\<lparr>current_page_id := p\<rparr>) n = find_rune_id self n"
  by (simp_all add: find_rune_id_def split: option.splits)

lemma catalog_keys_distinct: "distinct (map fst (rune_id_map RuneManager_init))"
  by (simp add: RuneManager_init_def)

lemma catalog_nonzero: "0 \<notin> snd ` set (rune_id_map RuneManager_init)"
  by (simp add: RuneManager_init_def)

lemma scenario_lookups:
  "find_rune_id RuneManager_init ''Electrocute'' = Some 8112"
  "find_rune_id RuneManager_init ''Cheap Shot'' = Some 8126"
  "find_rune_id RuneManager_init ''Sudden Impact'' = Some 8143"
  "find_rune_id RuneManager_init ''Treasure Hunter'' = Some 8135"
  "find_rune_id RuneManager_init ''Second Wind'' = Some 8444"
  "find_rune_id RuneManager_init ''Bone Plating'' = Some 8473"
  "find_rune_id RuneManager_init ''Adaptive Force'' = Some 5008"
  "find_rune_id RuneManager_init ''Health'' = Some 5011"
  by (simp_all add: find_rune_id_def RuneManager_init_def)

lemma scenario_paths:
  "dict_get (path_id_map RuneManager_init) ''Domination'' 8000 = 8100"
  "dict_get (path_id_map RuneManager_init) ''Resolve'' 8400 = 8400"
  by (simp_all add: dict_get_def RuneManager_init_def)

lemma scenario_resolved_ids:
  "resolved_ids RuneManager_init (scenario_record subject) =
     [8112, 8126, 8143, 8135, 8444, 8473, 5008, 5008, 5011]"
  by (simp add: resolved_ids_def scenario_record_def str_or_empty_def List.map_filter_simps
      scenario_lookups)

text \<open>
  C7. \<open>find_rune_id\<close> returns the id stored under the name when the name is a key of the
  catalog, whatever the other entries are. When the name is not a key, it returns the id of
  the entry of least index such that the lower-cased key occurs in the lower-cased name or
  the lower-cased name occurs in the lower-cased key. It returns nothing exactly when the
  name is not a key and no entry matches in that way.
\<close>

theorem find_rune_id_policy:
  "(map_of (rune_id_map self) n = Some v \<longrightarrow> find_rune_id self n = Some v)
   \<and> (map_of (rune_id_map self) n = None \<longrightarrow>
        (find_rune_id self n = Some v \<longleftrightarrow>
           (\<exists>i < length (rune_id_map self).
              (sublist (lower (fst (rune_id_map self ! i))) (lower n)
                 \<or> sublist (lower n) (lower (fst (rune_id_map self ! i))))
              \<and> snd (rune_id_map self ! i) = v
              \<and> (\<forall>j < i. \<not> (sublist (lower (fst (rune_id_map self ! j))) (lower n)
                               \<or> sublist (lower n) (lower (fst (rune_id_map self ! j))))))))
   \<and> (find_rune_id self n = None \<longleftrightarrow>
        map_of (rune_id_map self) n = None
        \<and> (\<forall>kv \<in> set (rune_id_map self).
              \<not> (sublist (lower (fst kv)) (lower n) \<or> sublist (lower n) (lower (fst kv)))))"
  by (cases "map_of (rune_id_map self) n")
     (simp_all add: find_rune_id_def fuzzy_match_Some fuzzy_match_None fuzzy_sublist)


lemma hunter_lookup: "find_rune_id RuneManager_init ''Hunter'' = Some 8135"
  by code_simp

lemma hunter_not_key: "map_of (rune_id_map RuneManager_init) ''Hunter'' = None"
  by (simp add: RuneManager_init_def)

lemma health_scaling_key:
  "map_of (rune_id_map RuneManager_init) ''Health Scaling'' = Some 5001"
  by (simp add: RuneManager_init_def)

lemma health_fuzzy_health_scaling: "fuzzy ''Health'' ''Health Scaling''"
  by code_simp

text \<open>
  The policy at two names. \<open>Health Scaling\<close> is a key, and the earlier entry \<open>Health\<close>
  matches it loosely; the exact entry wins. \<open>Hunter\<close> is not a key; three entries contain
  it, and the earliest, \<open>Treasure Hunter\<close>, is returned.
\<close>

theorem find_rune_id_policy_witness:
  "map_of (rune_id_map RuneManager_init) ''Health Scaling'' = Some 5001
   \<and> fuzzy ''Health'' ''Health Scaling''
   \<and> find_rune_id RuneManager_init ''Health Scaling'' = Some 5001
   \<and> map_of (rune_id_map RuneManager_init) ''Hunter'' = None
   \<and> (\<exists>i < length (rune_id_map RuneManager_init).
         (sublist (lower (fst (rune_id_map RuneManager_init ! i))) (lower ''Hunter'')
            \<or> sublist (lower ''Hunter'') (lower (fst (rune_id_map RuneManager_init ! i))))
         \<and> snd (rune_id_map RuneManager_init ! i) = 8135
         \<and> (\<forall>j < i.
               \<not> (sublist (lower (fst (rune_id_map RuneManager_init ! j))) (lower ''Hunter'')
                  \<or> sublist (lower ''Hunter'')
                       (lower (fst (rune_id_map RuneManager_init ! j))))))"
  using find_rune_id_policy [of RuneManager_init "''Health Scaling''" 5001]
        find_rune_id_policy [of RuneManager_init "''Hunter''" 8135]
        hunter_lookup hunter_not_key health_scaling_key health_fuzzy_health_scaling
  by blast

section \<open>Properties of the validation\<close>

lemma append_resolved_map_filter:
  "0 \<notin> snd ` set (rune_id_map self) \<Longrightarrow>
   append_resolved self names selected = selected @ List.map_filter (find_rune_id self) names"
proof (induction names arbitrary: selected)
  case Nil
  show ?case by (simp add: List.map_filter_simps)
next
  case (Cons n names)
  show ?case
  proof (cases "find_rune_id self n")
    case None
    with Cons show ?thesis by (simp add: List.map_filter_simps)
  next
    case (Some i)
    with Cons.prems have "i \<noteq> 0" using find_rune_id_in_catalog by metis
    with Some Cons show ?thesis by (simp add: List.map_filter_simps)
  qed
qed

lemma map_filter_append:
  "List.map_filter f (xs @ ys) = List.map_filter f xs @ List.map_filter f ys"
  by (simp add: List.map_filter_def)

lemma lower_zed: "lower ''zed'' = lower ''Zed''"
  by code_simp

lemma lower_ahri_zed: "lower ''ahri'' \<noteq> lower ''Zed''"
  by code_simp

text \<open>
  C2, as amended. Let \<open>rune_data.json\<close> hold a raw record whose champion field equals the
  requested champion name up to case, whose primary and secondary group names and keystone
  name are present (not empty), and whose keystone name resolves; the catalog holds no id
  \<open>0\<close>. Then \<open>load_rune_data_from_file\<close> succeeds if and only if the record resolves to
  exactly 9 ids. On success it stores, under the requested name, the two group ids and the
  resolved ids: the keystone id, then the ids of the primary, secondary and stat-shard names
  in input order, the names that do not resolve being dropped. Otherwise it returns false
  and leaves every field as it was.
\<close>

theorem load_rune_data_from_file_validates:
  assumes stored: "rune_data_json (world s) = Some r"
    and subject: "lower (str_or_empty (champion r)) = lower champion_name"
    and paths: "str_or_empty (primary_path r) \<noteq> []" "str_or_empty (secondary_path r) \<noteq> []"
    and keystone_present: "str_or_empty (keystone r) \<noteq> []"
    and keystone_resolves: "find_rune_id (runes s) (str_or_empty (keystone r)) \<noteq> None"
    and catalog: "0 \<notin> snd ` set (rune_id_map (runes s))"
  shows "load_rune_data_from_file champion_name s =
     (if length (resolved_ids (runes s) r) = 9
      then (True, s\<lparr>runes := (runes s)\<lparr>rune_data := (rune_data (runes s))(champion_name \<mapsto>
                \<lparr>primary_style =
                   dict_get (path_id_map (runes s)) (str_or_empty (primary_path r)) 8000,
                 sub_style =
                   dict_get (path_id_map (runes s)) (str_or_empty (secondary_path r)) 8400,
                 selected_perks = resolved_ids (runes s) r\<rparr>)\<rparr>\<rparr>)
      else (False, s))"
proof -
  from keystone_resolves obtain kid
    where kid: "find_rune_id (runes s) (str_or_empty (keystone r)) = Some kid"
    by blast
  with catalog have nz: "kid \<noteq> 0" using find_rune_id_in_catalog by metis
  have ids: "resolved_ids (runes s) r =
      append_resolved (runes s) (stat_shards r)
        (append_resolved (runes s) (secondary_runes r)
          (append_resolved (runes s) (primary_runes r) [kid]))"
    by (simp add: resolved_ids_def append_resolved_map_filter[OF catalog]
        List.map_filter_simps kid map_filter_append)
  show ?thesis
    unfolding ids
    by (simp add: load_rune_data_from_file_def stored subject paths keystone_present kid nz
        Let_def)
qed

text \<open>
  The amended statement at the scenario record written for \<open>zed\<close> and requested as
  \<open>Zed\<close>: the record resolves to 9 ids and is stored under \<open>Zed\<close>.
\<close>

theorem load_rune_data_from_file_validates_witness:
  "rune_data_json (world (init_system (Some (scenario_record ''zed''))))
     = Some (scenario_record ''zed'')
   \<and> lower (str_or_empty (champion (scenario_record ''zed''))) = lower ''Zed''
   \<and> str_or_empty (primary_path (scenario_record ''zed'')) \<noteq> []
   \<and> str_or_empty (secondary_path (scenario_record ''zed'')) \<noteq> []
   \<and> str_or_empty (keystone (scenario_record ''zed'')) \<noteq> []
   \<and> find_rune_id (runes (init_system (Some (scenario_record ''zed''))))
        (str_or_empty (keystone (scenario_record ''zed''))) \<noteq> None
   \<and> 0 \<notin> snd ` set (rune_id_map (runes (init_system (Some (scenario_record ''zed'')))))
   \<and> load_rune_data_from_file ''Zed'' (init_system (Some (scenario_record ''zed'')))
     = (True, (init_system (Some (scenario_record ''zed'')))
          \<lparr>runes := RuneManager_init\<lparr>rune_data := [''Zed'' \<mapsto> scenario_setup]\<rparr>\<rparr>)"
proof -
  let ?s = "init_system (Some (scenario_record ''zed''))"
  have r: "runes ?s = RuneManager_init" by (simp add: init_system_def)
  have h1: "rune_data_json (world ?s) = Some (scenario_record ''zed'')"
    by (simp add: init_system_def)
  have h2: "lower (str_or_empty (champion (scenario_record ''zed''))) = lower ''Zed''"
    using lower_zed by (simp add: scenario_record_def str_or_empty_def)
  have h3: "str_or_empty (primary_path (scenario_record ''zed'')) \<noteq> []"
    by (simp add: scenario_record_def str_or_empty_def)
  have h4: "str_or_empty (secondary_path (scenario_record ''zed'')) \<noteq> []"
    by (simp add: scenario_record_def str_or_empty_def)
  have h5: "str_or_empty (keystone (scenario_record ''zed'')) \<noteq> []"
    by (simp add: scenario_record_def str_or_empty_def)
  have h6: "find_rune_id (runes ?s) (str_or_empty (keystone (scenario_record ''zed''))) \<noteq> None"
    unfolding r by (simp add: scenario_record_def str_or_empty_def scenario_lookups)
  have h7: "0 \<notin> snd ` set (rune_id_map (runes ?s))"
    unfolding r by (rule catalog_nonzero)
  have p: "str_or_empty (primary_path (scenario_record ''zed'')) = ''Domination''"
    "str_or_empty (secondary_path (scenario_record ''zed'')) = ''Resolve''"
    by (simp_all add: scenario_record_def str_or_empty_def)
  have e: "rune_data RuneManager_init = Map.empty"
    by (simp add: RuneManager_init_def)
  from load_rune_data_from_file_validates [OF h1 h2 h3 h4 h5 h6 h7]
  have "load_rune_data_from_file ''Zed'' ?s
     = (True, ?s\<lparr>runes := RuneManager_init\<lparr>rune_data := [''Zed'' \<mapsto> scenario_setup]\<rparr>\<rparr>)"
    by (simp add: r p e scenario_resolved_ids scenario_paths scenario_setup_def)
  with h1 h2 h3 h4 h5 h6 h7 show ?thesis by blast
qed

text \<open>
  C2 as stated fails when the file holds the record of another champion: the scenario
  record written for \<open>ahri\<close> has both group names, a keystone that resolves and 9 resolved
  ids, yet validation for \<open>Zed\<close> returns false and stores nothing.
\<close>

theorem load_other_subject_counterexample:
  "str_or_empty (primary_path (scenario_record ''ahri'')) \<noteq> []
   \<and> str_or_empty (secondary_path (scenario_record ''ahri'')) \<noteq> []
   \<and> find_rune_id RuneManager_init (str_or_empty (keystone (scenario_record ''ahri'')))
       = Some 8112
   \<and> length (resolved_ids RuneManager_init (scenario_record ''ahri'')) = 9
   \<and> load_rune_data_from_file ''Zed'' (init_system (Some (scenario_record ''ahri'')))
       = (False, init_system (Some (scenario_record ''ahri'')))"
proof -
  have "rune_data_json (world (init_system (Some (scenario_record ''ahri''))))
      = Some (scenario_record ''ahri'')"
    by (simp add: init_system_def)
  moreover have "lower (str_or_empty (champion (scenario_record ''ahri''))) \<noteq> lower ''Zed''"
    using lower_ahri_zed by (simp add: scenario_record_def str_or_empty_def)
  ultimately have "load_rune_data_from_file ''Zed'' (init_system (Some (scenario_record ''ahri'')))
       = (False, init_system (Some (scenario_record ''ahri'')))"
    by (simp add: load_rune_data_from_file_def)
  moreover have "find_rune_id RuneManager_init
      (str_or_empty (keystone (scenario_record ''ahri''))) = Some 8112"
    by (simp add: scenario_record_def str_or_empty_def scenario_lookups)
  moreover have "str_or_empty (primary_path (scenario_record ''ahri'')) \<noteq> []"
    "str_or_empty (secondary_path (scenario_record ''ahri'')) \<noteq> []"
    by (simp_all add: scenario_record_def str_or_empty_def)
  ultimately show ?thesis by (simp add: scenario_resolved_ids)
qed

text \<open>
  C9. Validating the Domination and Resolve scenario record for its subject, from any
  state of the service whose catalog is the one the constructor builds, stores primary
  group id 8100, secondary group id 8400 and the selection ids
  \<open>[8112, 8126, 8143, 8135, 8444, 8473, 5008, 5008, 5011]\<close>, and returns true.
\<close>

theorem scenario_domination_resolve:
  "load_rune_data_from_file subject
     \<lparr>lcu = l, runes = RuneManager_init\<lparr>current_page_id := pid, rune_data := rd\<rparr>,
      monitor = m, world = w\<lparr>rune_data_json := Some (scenario_record subject)\<rparr>\<rparr>
   = (True,
      \<lparr>lcu = l,
       runes = RuneManager_init\<lparr>current_page_id := pid, rune_data := rd(subject \<mapsto>
         \<lparr>primary_style = 8100, sub_style = 8400,
          selected_perks = [8112, 8126, 8143, 8135, 8444, 8473, 5008, 5008, 5011]\<rparr>)\<rparr>,
       monitor = m,
       world = w\<lparr>rune_data_json := Some (scenario_record subject)\<rparr>\<rparr>)"
  by (simp add: load_rune_data_from_file_def scenario_record_def str_or_empty_def Let_def
      scenario_lookups scenario_paths)

section \<open>Properties of the connection\<close>

lemma find_league_client_frame:
  assumes "find_league_client e s = (ok, s')"
  shows "http_log (world s') = http_log (world s)"
    and "runes s' = runes s" and "monitor s' = monitor s"
    and "locked_in (world s') = locked_in (world s)"
    and "rune_data_json (world s') = rune_data_json (world s)"
    and "scrapes (world s') = scrapes (world s)"
    and "ok \<longleftrightarrow> connected (lcu s')"
  using assms
  by (auto simp: find_league_client_def Let_def split: if_splits scan_result.splits)

lemma send_frame:
  assumes "send e call s = (result, s')"
  shows "http_log (world s') = http_log (world s) @ [call]"
    and "runes s' = runes s" and "monitor s' = monitor s"
    and "locked_in (world s') = locked_in (world s)"
    and "rune_data_json (world s') = rune_data_json (world s)"
    and "scrapes (world s') = scrapes (world s)"
  using assms
  by (auto simp: send_def Let_def split: if_splits http_outcome.splits option.splits)

lemma send_outcome:
  assumes "send e call s = (result, s')" and "connected (lcu s)"
  shows "case http e (length (http_log (world s))) call of
               Transport_Error \<Rightarrow> result = JNull \<and> \<not> connected (lcu s')
             | Response status_code body \<Rightarrow>
                 if status_code = 404 then result = JNull \<and> connected (lcu s')
                 else if 400 \<le> status_code \<and> status_code < 600
                   then result = JNull \<and> \<not> connected (lcu s')
                 else connected (lcu s') \<and> result = (case body of None \<Rightarrow> JObj [] | Some j \<Rightarrow> j)"
  using assms
  by (auto simp: send_def Let_def split: if_splits http_outcome.splits option.splits)

lemma request_sends:
  assumes "request e method ep data s = (result, s')"
  shows "(http_log (world s') = http_log (world s) \<and> result = JNull \<and> \<not> connected (lcu s'))
       \<or> (\<exists>s0. connected (lcu s0) \<and> http_log (world s0) = http_log (world s)
             \<and> send e (method, ep, data) s0 = (result, s'))"
proof (cases "connected (lcu s)")
  case True
  with assms have "send e (method, ep, data) s = (result, s')" by (simp add: request_def)
  with True show ?thesis by blast
next
  case False
  obtain ok s1 where f: "find_league_client e s = (ok, s1)" by (cases "find_league_client e s")
  show ?thesis
  proof (cases ok)
    case True
    with assms False f have "send e (method, ep, data) s1 = (result, s')"
      by (simp add: request_def)
    moreover from find_league_client_frame(7)[OF f] True have "connected (lcu s1)" by simp
    ultimately show ?thesis using find_league_client_frame(1)[OF f] by blast
  next
    case no: False
    with assms False f have "result = JNull" "s' = s1" by (simp_all add: request_def)
    with find_league_client_frame(1,7)[OF f] no show ?thesis by simp
  qed
qed

text \<open>
  C8. A call of \<open>request\<close> sends at most one HTTP request: either nothing is sent
  (the client was not found), the result is \<open>None\<close> and the service is not connected,
  or exactly the requested call is added to the calls sent. In that case a 404 response
  gives \<open>None\<close> and leaves the service connected; a transport failure, and a status
  from 400 to 599 other than 404, give \<open>None\<close> and clear the connected flag; any other
  response leaves the service connected and gives the decoded body, or the empty dict for
  an empty body.
\<close>

theorem request_single_attempt:
  assumes "request e method ep data s = (result, s')"
  shows "(http_log (world s') = http_log (world s) \<and> result = JNull \<and> \<not> connected (lcu s'))
       \<or> (http_log (world s') = http_log (world s) @ [(method, ep, data)]
          \<and> (case http e (length (http_log (world s))) (method, ep, data) of
               Transport_Error \<Rightarrow> result = JNull \<and> \<not> connected (lcu s')
             | Response status_code body \<Rightarrow>
                 if status_code = 404 then result = JNull \<and> connected (lcu s')
                 else if 400 \<le> status_code \<and> status_code < 600
                   then result = JNull \<and> \<not> connected (lcu s')
                 else connected (lcu s')
                      \<and> result = (case body of None \<Rightarrow> JObj [] | Some j \<Rightarrow> j)))"
proof -
  from request_sends[OF assms] consider
    (unsent) "http_log (world s') = http_log (world s)" "result = JNull" "\<not> connected (lcu s')"
  | (sent) s0 where "connected (lcu s0)" "http_log (world s0) = http_log (world s)"
      "send e (method, ep, data) s0 = (result, s')"
    by blast
  then show ?thesis
  proof cases
    case unsent
    then show ?thesis by simp
  next
    case sent
    from send_frame(1)[OF sent(3)] send_outcome[OF sent(3) sent(1)] sent(2)
    show ?thesis by simp
  qed
qed

text \<open>
  The statement at a client that answers 404 and at one that answers 500, from a
  service that is not yet connected: one call each, \<open>None\<close> both times, and the
  connected flag kept in the first case and cleared in the second.
\<close>

theorem request_single_attempt_witness:
  "request env_not_found GET Perks_Pages None (init_system None)
     = (JNull, snd (request env_not_found GET Perks_Pages None (init_system None)))
   \<and> http env_not_found 0 (GET, Perks_Pages, None) = Response 404 None
   \<and> connected (lcu (snd (request env_not_found GET Perks_Pages None (init_system None))))
   \<and> http_log (world (snd (request env_not_found GET Perks_Pages None (init_system None))))
       = [(GET, Perks_Pages, None)]
   \<and> request env_server_error GET Perks_Pages None (init_system None)
     = (JNull, snd (request env_server_error GET Perks_Pages None (init_system None)))
   \<and> http env_server_error 0 (GET, Perks_Pages, None) = Response 500 None
   \<and> \<not> connected (lcu (snd (request env_server_error GET Perks_Pages None (init_system None))))
   \<and> http_log (world (snd (request env_server_error GET Perks_Pages None (init_system None))))
       = [(GET, Perks_Pages, None)]"
proof -
  have a: "request env_not_found GET Perks_Pages None (init_system None)
     = (JNull, snd (request env_not_found GET Perks_Pages None (init_system None)))"
    by (simp add: request_def send_def find_league_client_def healthy_env_def script_def
        init_system_def Let_def env_not_found_def)
  have b: "request env_server_error GET Perks_Pages None (init_system None)
     = (JNull, snd (request env_server_error GET Perks_Pages None (init_system None)))"
    by (simp add: request_def send_def find_league_client_def healthy_env_def script_def
        init_system_def Let_def env_server_error_def)
  have o: "http env_not_found 0 (GET, Perks_Pages, None) = Response 404 None"
    "http env_server_error 0 (GET, Perks_Pages, None) = Response 500 None"
    by (simp_all add: env_not_found_def env_server_error_def healthy_env_def script_def)
  have l: "http_log (world (init_system None)) = []" by (simp add: init_system_def)
  have la: "http_log (world (snd (request env_not_found GET Perks_Pages None (init_system None))))
       = [(GET, Perks_Pages, None)]"
    by (simp add: request_def send_def find_league_client_def healthy_env_def script_def
        init_system_def Let_def env_not_found_def)
  have lb: "http_log (world (snd (request env_server_error GET Perks_Pages None (init_system None))))
       = [(GET, Perks_Pages, None)]"
    by (simp add: request_def send_def find_league_client_def healthy_env_def script_def
        init_system_def Let_def env_server_error_def)
  from request_single_attempt [OF a] la l o
  have ca: "connected (lcu (snd (request env_not_found GET Perks_Pages None (init_system None))))"
    by simp
  from request_single_attempt [OF b] lb l o
  have cb: "\<not> connected (lcu (snd (request env_server_error GET Perks_Pages None (init_system None))))"
    by simp
  from a b o la lb ca cb show ?thesis by blast
qed

lemma request_frame:
  assumes "request e method ep data s = (result, s')"
  shows "runes s' = runes s" and "monitor s' = monitor s"
    and "locked_in (world s') = locked_in (world s)"
    and "rune_data_json (world s') = rune_data_json (world s)"
    and "scrapes (world s') = scrapes (world s)"
proof -
  have "runes s' = runes s \<and> monitor s' = monitor s
    \<and> locked_in (world s') = locked_in (world s)
    \<and> rune_data_json (world s') = rune_data_json (world s)
    \<and> scrapes (world s') = scrapes (world s)"
  proof (cases "connected (lcu s)")
    case True
    with assms have "send e (method, ep, data) s = (result, s')" by (simp add: request_def)
    from send_frame(2-6)[OF this] show ?thesis by simp
  next
    case False
    obtain ok s1 where f: "find_league_client e s = (ok, s1)" by (cases "find_league_client e s")
    show ?thesis
    proof (cases ok)
      case True
      with assms False f have "send e (method, ep, data) s1 = (result, s')"
        by (simp add: request_def)
      from send_frame(2-6)[OF this] find_league_client_frame(2-6)[OF f] show ?thesis by simp
    next
      case no: False
      with assms False f have "s' = s1" by (simp add: request_def)
      with find_league_client_frame(2-6)[OF f] show ?thesis by simp
    qed
  qed
  then show "runes s' = runes s" and "monitor s' = monitor s"
    and "locked_in (world s') = locked_in (world s)"
    and "rune_data_json (world s') = rune_data_json (world s)"
    and "scrapes (world s') = scrapes (world s)" by simp_all
qed

lemma request_nonnull:
  assumes "request e method ep data s = (result, s')" and "result \<noteq> JNull"
  shows "http_log (world s') = http_log (world s) @ [(method, ep, data)]" and "connected (lcu s')"
proof -
  from request_sends[OF assms(1)] assms(2) obtain s0
    where s0: "connected (lcu s0)" "http_log (world s0) = http_log (world s)"
      "send e (method, ep, data) s0 = (result, s')"
    by blast
  from send_frame(1)[OF s0(3)] s0(2)
  show "http_log (world s') = http_log (world s) @ [(method, ep, data)]" by simp
  from send_outcome[OF s0(3) s0(1)] assms(2)
  show "connected (lcu s')" by (auto split: http_outcome.splits if_splits)
qed

section \<open>Properties of applying a preset\<close>

lemma well_formed_pageE:
  assumes "well_formed_page p"
  obtains kvs page_name i where "p = JObj kvs" "map_of kvs ''name'' = Some (JStr page_name)"
    "map_of kvs ''id'' = Some i"
proof (cases p)
  case (JObj kvs)
  with assms show ?thesis
    by (auto simp: well_formed_page_def split: option.splits json.splits sum.splits intro: that)
qed (use assms in \<open>simp_all add: well_formed_page_def\<close>)

lemma first_auto_page_find:
  assumes "\<forall>p \<in> set ps. well_formed_page p"
  shows "first_auto_page ps = Inr (case find is_tagged ps of None \<Rightarrow> JNull | Some p \<Rightarrow> p)"
  using assms
proof (induction ps)
  case Nil
  show ?case by simp
next
  case (Cons p ps)
  from Cons.prems have "well_formed_page p" by simp
  then obtain kvs page_name i where p: "p = JObj kvs" "map_of kvs ''name'' = Some (JStr page_name)"
    "map_of kvs ''id'' = Some i" by (rule well_formed_pageE)
  with Cons show ?case by (simp add: is_tagged_def starts_with_prefix)
qed

lemma well_formed_truthy: "well_formed_page p \<Longrightarrow> truthy p"
  by (erule well_formed_pageE) auto

lemma well_formed_getitem_id: "well_formed_page p \<Longrightarrow> getitem p ''id'' = Inr (page_id p)"
  by (erule well_formed_pageE) (simp add: page_id_def)

lemma getitem0_list: "pages \<noteq> [] \<Longrightarrow> getitem0 (JList pages) = Inr (hd pages)"
  by (cases pages) auto

lemma choose_page_id_well_formed:
  assumes "pages \<noteq> []" and wf: "\<forall>p \<in> set pages. well_formed_page p"
  shows "choose_page_id (JList pages) =
     Inr (page_id (case find is_tagged pages of Some p \<Rightarrow> p | None \<Rightarrow> hd pages))"
proof (cases "find is_tagged pages")
  case None
  with first_auto_page_find[OF wf] have fa: "first_auto_page pages = Inr JNull" by simp
  from assms have "well_formed_page (hd pages)" by simp
  with None assms(1) show ?thesis
    by (simp add: choose_page_id_def fa getitem0_list well_formed_getitem_id)
next
  case (Some p)
  with first_auto_page_find[OF wf] have fa: "first_auto_page pages = Inr p" by simp
  from Some have "p \<in> set pages" by (auto simp: find_Some_iff)
  with wf have "well_formed_page p" by simp
  with Some show ?thesis
    by (simp add: choose_page_id_def fa well_formed_getitem_id well_formed_truthy)
qed

lemma target_index:
  assumes "pages \<noteq> []"
  shows "\<exists>i < length pages.
     (case find is_tagged pages of Some p \<Rightarrow> p | None \<Rightarrow> hd pages) = pages ! i
     \<and> ((is_tagged (pages ! i) \<and> (\<forall>j < i. \<not> is_tagged (pages ! j)))
        \<or> (i = 0 \<and> (\<forall>p \<in> set pages. \<not> is_tagged p)))"
proof (cases "find is_tagged pages")
  case None
  then have "\<forall>p \<in> set pages. \<not> is_tagged p" by (simp add: find_None_iff)
  with assms None show ?thesis by (intro exI[of _ 0]) (simp add: hd_conv_nth)
next
  case (Some p)
  then obtain i where "i < length pages" "is_tagged (pages ! i)" "p = pages ! i"
    "\<forall>j < i. \<not> is_tagged (pages ! j)" by (auto simp: find_Some_iff)
  with Some show ?thesis by (intro exI[of _ i]) simp
qed

lemma request_connected_log:
  assumes "connected (lcu s)" "request e method ep data s = (result, s')"
  shows "http_log (world s') = http_log (world s) @ [(method, ep, data)]"
  using assms by (auto simp: request_def dest: send_frame(1))

lemma write_page_update:
  assumes "pages \<noteq> []" and wf: "\<forall>p \<in> set pages. well_formed_page p"
    and put: "request e PUT (Perks_Page (page_id (case find is_tagged pages of Some p \<Rightarrow> p | None \<Rightarrow> hd pages)))
       (Some (page_payload c rune_setup)) s = (result, s')"
  shows "write_page e c rune_setup (JList pages) s = (result \<noteq> JNull, s')"
  using assms(1) put by (simp add: write_page_def choose_page_id_well_formed[OF assms(1) wf])

lemma has_id_iff: "has_id result \<longleftrightarrow> (\<exists>i. getitem result ''id'' = Inr i)"
  by (auto simp: has_id_def split: sum.splits)

lemma getitem_Inr_iff:
  "getitem result k = Inr i \<longleftrightarrow> (\<exists>kvs. result = JObj kvs \<and> map_of kvs k = Some i)"
  by (cases result) (auto split: option.splits)

lemma write_page_create:
  assumes "\<not> truthy pages"
    and post: "request e POST Perks_Pages (Some (page_payload c rune_setup)) s = (result, s')"
  shows "write_page e c rune_setup pages s =
     (if has_id result then (True, s'\<lparr>runes := (runes s')\<lparr>current_page_id := page_id result\<rparr>\<rparr>)
      else (False, s'))"
proof (cases "has_id result")
  case True
  then obtain kvs i where r: "result = JObj kvs" "map_of kvs ''id'' = Some i"
    by (auto simp: has_id_iff getitem_Inr_iff)
  then have "kvs \<noteq> []" by auto
  moreover from r have "''id'' \<in> fst ` set kvs" by (metis map_of_eq_None_iff option.distinct(1))
  ultimately show ?thesis using assms r True by (simp add: write_page_def page_id_def)
next
  case False
  then have "\<And>i. getitem result ''id'' \<noteq> Inr i" by (simp add: has_id_iff)
  then have "\<exists>x. getitem result ''id'' = Inl x" by (cases "getitem result ''id''") auto
  with assms False show ?thesis
    by (auto simp: write_page_def split: sum.splits bool.splits)
qed

lemma apply_stored_write:
  assumes "rune_data (runes s) c = Some rune_setup" "valid_setup rune_setup"
    and "request e GET Perks_Pages None s = (response, s1)"
  shows "apply_stored e c s =
     write_page e c rune_setup (if truthy response then response else JList []) s1"
  using assms by (simp add: apply_stored_def valid_setup_def)

lemma apply_known_champion:
  assumes "rune_data (runes s) c = Some rune_setup"
  shows "apply_runes_for_champion e c s = (Inr (fst (apply_stored e c s)), snd (apply_stored e c s))"
  using assms by (auto simp: apply_runes_for_champion_def split: prod.splits)

lemma apply_update_path:
  assumes stored: "rune_data (runes s) c = Some rune_setup" "valid_setup rune_setup"
    and read: "request e GET Perks_Pages None s = (JList pages, s1)"
    and pages: "pages \<noteq> []" "\<forall>p \<in> set pages. well_formed_page p"
    and put: "request e PUT
        (Perks_Page (page_id (case find is_tagged pages of Some p \<Rightarrow> p | None \<Rightarrow> hd pages)))
        (Some (page_payload c rune_setup)) s1 = (result, s2)"
  shows "apply_runes_for_champion e c s = (Inr (result \<noteq> JNull), s2)"
    and "http_log (world s2) = http_log (world s) @
       [(GET, Perks_Pages, None),
        (PUT, Perks_Page (page_id (case find is_tagged pages of Some p \<Rightarrow> p | None \<Rightarrow> hd pages)),
         Some (page_payload c rune_setup))]"
proof -
  from pages(1) have t: "truthy (JList pages)" by simp
  have "apply_stored e c s = write_page e c rune_setup (JList pages) s1"
    using apply_stored_write[OF stored read] t by simp
  also have "\<dots> = (result \<noteq> JNull, s2)" by (rule write_page_update[OF pages put])
  finally show "apply_runes_for_champion e c s = (Inr (result \<noteq> JNull), s2)"
    by (simp add: apply_known_champion[OF stored(1)])
  have "JList pages \<noteq> JNull" by simp
  from request_nonnull[OF read this]
  have l1: "http_log (world s1) = http_log (world s) @ [(GET, Perks_Pages, None)]"
    and c1: "connected (lcu s1)" by simp_all
  from request_connected_log[OF c1 put] l1
  show "http_log (world s2) = http_log (world s) @
       [(GET, Perks_Pages, None),
        (PUT, Perks_Page (page_id (case find is_tagged pages of Some p \<Rightarrow> p | None \<Rightarrow> hd pages)),
         Some (page_payload c rune_setup))]" by simp
qed

lemma apply_create_path:
  assumes stored: "rune_data (runes s) c = Some rune_setup" "valid_setup rune_setup"
    and read: "request e GET Perks_Pages None s = (response, s1)" "\<not> truthy response"
    and post: "request e POST Perks_Pages (Some (page_payload c rune_setup)) s1 = (result, s2)"
  shows "apply_runes_for_champion e c s =
     (if has_id result then (Inr True, s2\<lparr>runes := (runes s2)\<lparr>current_page_id := page_id result\<rparr>\<rparr>)
      else (Inr False, s2))"
proof -
  have "apply_stored e c s = write_page e c rune_setup (JList []) s1"
    using apply_stored_write[OF stored read(1)] read(2) by simp
  also have "\<dots> = (if has_id result
       then (True, s2\<lparr>runes := (runes s2)\<lparr>current_page_id := page_id result\<rparr>\<rparr>)
       else (False, s2))"
    by (rule write_page_create[OF _ post]) simp
  finally show ?thesis by (simp add: apply_known_champion[OF stored(1)])
qed

lemma valid_scenario_setup: "valid_setup scenario_setup"
  by (simp add: valid_setup_def scenario_setup_def)

lemma ready_stored: "rune_data (runes (ready_system c)) c = Some scenario_setup"
  by (simp add: ready_system_def)

text \<open>
  C5. Let the stored setup of the champion be valid and let the read of the pages give a
  non-empty list of well-formed pages. Then \<open>apply_runes_for_champion\<close> sends the read
  and exactly one update, and nothing else. The update is addressed to the id of the
  tagged page of least index; only when no page of the list is tagged is it addressed to
  the first page.
\<close>

theorem apply_updates_first_tagged_page:
  assumes stored: "rune_data (runes s) c = Some rune_setup" "valid_setup rune_setup"
    and read: "request e GET Perks_Pages None s = (JList pages, s1)"
    and pages: "pages \<noteq> []" "\<forall>p \<in> set pages. well_formed_page p"
  shows "\<exists>i < length pages.
     ((is_tagged (pages ! i) \<and> (\<forall>j < i. \<not> is_tagged (pages ! j)))
        \<or> (i = 0 \<and> (\<forall>p \<in> set pages. \<not> is_tagged p)))
     \<and> http_log (world (snd (apply_runes_for_champion e c s))) =
         http_log (world s) @
           [(GET, Perks_Pages, None),
            (PUT, Perks_Page (page_id (pages ! i)), Some (page_payload c rune_setup))]"
proof -
  let ?target = "case find is_tagged pages of Some p \<Rightarrow> p | None \<Rightarrow> hd pages"
  obtain result s2 where put:
    "request e PUT (Perks_Page (page_id ?target)) (Some (page_payload c rune_setup)) s1 = (result, s2)"
    by (cases "request e PUT (Perks_Page (page_id ?target)) (Some (page_payload c rune_setup)) s1")
  from apply_update_path[OF stored read pages put]
  have log: "http_log (world (snd (apply_runes_for_champion e c s))) =
      http_log (world s) @
        [(GET, Perks_Pages, None), (PUT, Perks_Page (page_id ?target), Some (page_payload c rune_setup))]"
    by simp
  from target_index[OF pages(1)] obtain i where i: "i < length pages" "?target = pages ! i"
    "(is_tagged (pages ! i) \<and> (\<forall>j < i. \<not> is_tagged (pages ! j)))
        \<or> (i = 0 \<and> (\<forall>p \<in> set pages. \<not> is_tagged p))" by blast
  show ?thesis
    by (rule exI[of _ i]) (use i log in simp)
qed

text \<open>
  The statement at a list of an untagged page with id 1 followed by a tagged page with
  id 2: the update goes to page 2.
\<close>

theorem apply_updates_first_tagged_page_witness:
  "rune_data (runes (ready_system ''Zed'')) ''Zed'' = Some scenario_setup \<and> valid_setup scenario_setup
   \<and> request env_two_pages GET Perks_Pages None (ready_system ''Zed'')
       = (JList [untagged_page, tagged_page],
          snd (request env_two_pages GET Perks_Pages None (ready_system ''Zed'')))
   \<and> [untagged_page, tagged_page] \<noteq> []
   \<and> well_formed_page untagged_page \<and> well_formed_page tagged_page
   \<and> \<not> is_tagged untagged_page \<and> is_tagged tagged_page
   \<and> http_log (world (snd (apply_runes_for_champion env_two_pages ''Zed'' (ready_system ''Zed'')))) =
       [(GET, Perks_Pages, None),
        (PUT, Perks_Page (JInt 2), Some (page_payload ''Zed'' scenario_setup))]"
proof -
  have rd: "request env_two_pages GET Perks_Pages None (ready_system ''Zed'')
       = (JList [untagged_page, tagged_page],
          snd (request env_two_pages GET Perks_Pages None (ready_system ''Zed'')))"
    by (simp add: apply_runes_for_champion_def apply_stored_def write_page_def
        choose_page_id_def request_def send_def find_league_client_def healthy_env_def
        script_def ok_200_def ready_system_def init_system_def scenario_setup_def
        page_payload_def Let_def env_two_pages_def)
  have wf: "\<forall>p \<in> set [untagged_page, tagged_page]. well_formed_page p"
    by (simp add: well_formed_page_def untagged_page_def tagged_page_def)
  have ne: "[untagged_page, tagged_page] \<noteq> []" by simp
  have tg: "\<not> is_tagged untagged_page" "is_tagged tagged_page"
    by (simp_all add: is_tagged_def untagged_page_def tagged_page_def)
  have l0: "http_log (world (ready_system ''Zed'')) = []"
    by (simp add: ready_system_def init_system_def)
  have pid: "page_id tagged_page = JInt 2" by (simp add: page_id_def tagged_page_def)
  from apply_updates_first_tagged_page [OF ready_stored valid_scenario_setup rd ne wf]
  obtain i where i: "i < length [untagged_page, tagged_page]"
    "(is_tagged ([untagged_page, tagged_page] ! i)
        \<and> (\<forall>j < i. \<not> is_tagged ([untagged_page, tagged_page] ! j)))
      \<or> (i = 0 \<and> (\<forall>p \<in> set [untagged_page, tagged_page]. \<not> is_tagged p))"
    "http_log (world (snd (apply_runes_for_champion env_two_pages ''Zed'' (ready_system ''Zed'')))) =
         http_log (world (ready_system ''Zed'')) @
           [(GET, Perks_Pages, None),
            (PUT, Perks_Page (page_id ([untagged_page, tagged_page] ! i)),
             Some (page_payload ''Zed'' scenario_setup))]"
    by blast
  from i(1) have "i = 0 \<or> i = 1" by auto
  with i(2) tg have "i = 1" by auto
  with i(3) l0 pid
  have "http_log (world (snd (apply_runes_for_champion env_two_pages ''Zed'' (ready_system ''Zed'')))) =
       [(GET, Perks_Pages, None),
        (PUT, Perks_Page (JInt 2), Some (page_payload ''Zed'' scenario_setup))]" by simp
  moreover from wf have "well_formed_page untagged_page" "well_formed_page tagged_page"
    by simp_all
  ultimately show ?thesis using ready_stored valid_scenario_setup rd ne tg by blast
qed

text \<open>
  C6, as amended. Let the stored setup be valid and let \<open>apply_runes_for_champion\<close>
  reach its write: the update of the chosen page when the pages read are a non-empty list,
  the create otherwise. On the update path it returns true if and only if the response is
  not \<open>None\<close>. On the create path it returns true if and only if the response is a dict
  that has an \<open>id\<close>. On both paths a \<open>None\<close> response gives false.
\<close>

theorem apply_success_iff_response:
  assumes stored: "rune_data (runes s) c = Some rune_setup" "valid_setup rune_setup"
    and read: "request e GET Perks_Pages None s = (response, s1)"
    and written: "if truthy response
        then choose_page_id response = Inr pid
           \<and> request e PUT (Perks_Page pid) (Some (page_payload c rune_setup)) s1 = (result, s2)
        else request e POST Perks_Pages (Some (page_payload c rune_setup)) s1 = (result, s2)"
  shows "fst (apply_runes_for_champion e c s) =
       Inr (if truthy response then result \<noteq> JNull else (\<exists>i. getitem result ''id'' = Inr i))
     \<and> (result = JNull \<longrightarrow> fst (apply_runes_for_champion e c s) = Inr False)"
proof (cases "truthy response")
  case True
  with written have w: "choose_page_id response = Inr pid"
    "request e PUT (Perks_Page pid) (Some (page_payload c rune_setup)) s1 = (result, s2)" by simp_all
  have "apply_stored e c s = write_page e c rune_setup response s1"
    using apply_stored_write[OF stored read] True by simp
  also have "\<dots> = (result \<noteq> JNull, s2)" using True w by (simp add: write_page_def)
  finally show ?thesis using True by (simp add: apply_known_champion[OF stored(1)])
next
  case False
  with written have "request e POST Perks_Pages (Some (page_payload c rune_setup)) s1 = (result, s2)"
    by simp
  from apply_create_path[OF stored read False this] False show ?thesis
    by (auto simp: has_id_iff)
qed

text \<open>
  The amended statement on the update path (a non-null response, true), on the create
  path with a response that has an id (true) and on the create path with the empty dict
  that \<open>request\<close> returns for an empty body (false).
\<close>

theorem apply_success_iff_response_witness:
  "fst (apply_runes_for_champion env_two_pages ''Zed'' (ready_system ''Zed'')) = Inr True
   \<and> fst (apply_runes_for_champion env_create_update ''Zed'' (ready_system ''Zed'')) = Inr True
   \<and> fst (apply_runes_for_champion env_empty_reply ''Zed'' (ready_system ''Zed'')) = Inr False"
proof -
  let ?s = "ready_system ''Zed''"
  let ?body = "Some (page_payload ''Zed'' scenario_setup)"
  have a: "fst (apply_runes_for_champion env_two_pages ''Zed'' ?s) = Inr True"
  proof -
    let ?s1 = "snd (request env_two_pages GET Perks_Pages None ?s)"
    have rd: "request env_two_pages GET Perks_Pages None ?s = (JList [untagged_page, tagged_page], ?s1)"
      by (simp add: apply_runes_for_champion_def apply_stored_def write_page_def
        choose_page_id_def request_def send_def find_league_client_def healthy_env_def
        script_def ok_200_def ready_system_def init_system_def scenario_setup_def
        page_payload_def Let_def env_two_pages_def)
    have w: "if truthy (JList [untagged_page, tagged_page])
        then choose_page_id (JList [untagged_page, tagged_page]) = Inr (JInt 2)
           \<and> request env_two_pages PUT (Perks_Page (JInt 2)) ?body ?s1
               = (tagged_page, snd (request env_two_pages PUT (Perks_Page (JInt 2)) ?body ?s1))
        else request env_two_pages POST Perks_Pages ?body ?s1
               = (tagged_page, snd (request env_two_pages PUT (Perks_Page (JInt 2)) ?body ?s1))"
      by (simp add: apply_runes_for_champion_def apply_stored_def write_page_def
        choose_page_id_def request_def send_def find_league_client_def healthy_env_def
        script_def ok_200_def ready_system_def init_system_def scenario_setup_def
        page_payload_def Let_def env_two_pages_def untagged_page_def tagged_page_def)
    from apply_success_iff_response [OF ready_stored valid_scenario_setup rd w]
    show ?thesis by (simp add: tagged_page_def)
  qed
  have b: "fst (apply_runes_for_champion env_create_update ''Zed'' ?s) = Inr True"
  proof -
    let ?s1 = "snd (request env_create_update GET Perks_Pages None ?s)"
    have rd: "request env_create_update GET Perks_Pages None ?s = (JList [], ?s1)"
      by (simp add: apply_runes_for_champion_def apply_stored_def write_page_def
        choose_page_id_def request_def send_def find_league_client_def healthy_env_def
        script_def ok_200_def ready_system_def init_system_def scenario_setup_def
        page_payload_def Let_def env_create_update_def)
    have w: "if truthy (JList [])
        then choose_page_id (JList []) = Inr JNull
           \<and> request env_create_update PUT (Perks_Page JNull) ?body ?s1
               = (created_page 5, snd (request env_create_update POST Perks_Pages ?body ?s1))
        else request env_create_update POST Perks_Pages ?body ?s1
               = (created_page 5, snd (request env_create_update POST Perks_Pages ?body ?s1))"
      by (simp add: apply_runes_for_champion_def apply_stored_def write_page_def
        choose_page_id_def request_def send_def find_league_client_def healthy_env_def
        script_def ok_200_def ready_system_def init_system_def scenario_setup_def
        page_payload_def Let_def env_create_update_def)
    from apply_success_iff_response [OF ready_stored valid_scenario_setup rd w]
    show ?thesis by (simp add: created_page_def)
  qed
  have c: "fst (apply_runes_for_champion env_empty_reply ''Zed'' ?s) = Inr False"
  proof -
    let ?s1 = "snd (request env_empty_reply GET Perks_Pages None ?s)"
    have rd: "request env_empty_reply GET Perks_Pages None ?s = (JList [], ?s1)"
      by (simp add: apply_runes_for_champion_def apply_stored_def write_page_def
        choose_page_id_def request_def send_def find_league_client_def healthy_env_def
        script_def ok_200_def ready_system_def init_system_def scenario_setup_def
        page_payload_def Let_def env_empty_reply_def)
    have w: "if truthy (JList [])
        then choose_page_id (JList []) = Inr JNull
           \<and> request env_empty_reply PUT (Perks_Page JNull) ?body ?s1
               = (JObj [], snd (request env_empty_reply POST Perks_Pages ?body ?s1))
        else request env_empty_reply POST Perks_Pages ?body ?s1
               = (JObj [], snd (request env_empty_reply POST Perks_Pages ?body ?s1))"
      by (simp add: apply_runes_for_champion_def apply_stored_def write_page_def
        choose_page_id_def request_def send_def find_league_client_def healthy_env_def
        script_def ok_200_def ready_system_def init_system_def scenario_setup_def
        page_payload_def Let_def env_empty_reply_def)
    from apply_success_iff_response [OF ready_stored valid_scenario_setup rd w]
    show ?thesis by simp
  qed
  from a b c show ?thesis by simp
qed

text \<open>
  C6 as stated fails on the create path: the client answers the create with an empty
  body, \<open>request\<close> returns the empty dict, which is not \<open>None\<close>, and
  \<open>apply_runes_for_champion\<close> returns false.
\<close>

theorem apply_empty_reply_counterexample:
  "fst (request env_empty_reply POST Perks_Pages (Some (page_payload ''Zed'' scenario_setup))
         (snd (request env_empty_reply GET Perks_Pages None (ready_system ''Zed'')))) = JObj []
   \<and> JObj [] \<noteq> JNull
   \<and> http_log (world (snd (apply_runes_for_champion env_empty_reply ''Zed'' (ready_system ''Zed'')))) =
       [(GET, Perks_Pages, None),
        (POST, Perks_Pages, Some (page_payload ''Zed'' scenario_setup))]
   \<and> fst (apply_runes_for_champion env_empty_reply ''Zed'' (ready_system ''Zed'')) = Inr False"
  by (simp add: apply_runes_for_champion_def apply_stored_def write_page_def
        choose_page_id_def request_def send_def find_league_client_def healthy_env_def
        script_def ok_200_def ready_system_def init_system_def scenario_setup_def
        page_payload_def Let_def env_empty_reply_def)

text \<open>
  C4, as amended. Let the stored setup be valid, let the read of the pages give nothing
  (an empty list or \<open>None\<close>) and let the response to the create have an id. Then
  \<open>apply_runes_for_champion\<close> sends the create, records that id in \<open>current_page_id\<close>
  and returns true. If the read of the next call for the same champion gives a non-empty
  list of well-formed pages in which the page chosen (the first tagged page, or the
  first page when none is tagged) has the recorded id, the next call sends that read and an
  update of that id, and no create.
\<close>

theorem apply_create_then_update:
  assumes stored: "rune_data (runes s) c = Some rune_setup" "valid_setup rune_setup"
    and read: "request e GET Perks_Pages None s = (response, s1)" "\<not> truthy response"
    and create: "request e POST Perks_Pages (Some (page_payload c rune_setup)) s1 = (created, s2)"
      "getitem created ''id'' = Inr new_id"
    and after: "s3 = s2\<lparr>runes := (runes s2)\<lparr>current_page_id := new_id\<rparr>\<rparr>"
    and reread: "request e GET Perks_Pages None s3 = (JList pages, s4)"
      "pages \<noteq> []" "\<forall>p \<in> set pages. well_formed_page p"
    and listed: "page_id (case find is_tagged pages of Some p \<Rightarrow> p | None \<Rightarrow> hd pages) = new_id"
  shows "apply_runes_for_champion e c s = (Inr True, s3)
     \<and> http_log (world s3) =
         http_log (world s1) @ [(POST, Perks_Pages, Some (page_payload c rune_setup))]
     \<and> current_page_id (runes s3) = new_id
     \<and> http_log (world (snd (apply_runes_for_champion e c s3))) =
         http_log (world s3) @
           [(GET, Perks_Pages, None), (PUT, Perks_Page new_id, Some (page_payload c rune_setup))]"
proof -
  from create(2) have h: "has_id created" "page_id created = new_id"
    by (simp_all add: has_id_iff page_id_def)
  from apply_create_path[OF stored read create(1)] h after
  have first: "apply_runes_for_champion e c s = (Inr True, s3)" by simp
  from create(2) have "created \<noteq> JNull" by auto
  from request_nonnull(1)[OF create(1) this] after
  have log3: "http_log (world s3) =
      http_log (world s1) @ [(POST, Perks_Pages, Some (page_payload c rune_setup))]" by simp
  have "runes s2 = runes s" using request_frame(1)[OF create(1)] request_frame(1)[OF read(1)] by simp
  with stored(1) after have stored3: "rune_data (runes s3) c = Some rune_setup" by simp
  obtain result s5 where put: "request e PUT
      (Perks_Page (page_id (case find is_tagged pages of Some p \<Rightarrow> p | None \<Rightarrow> hd pages)))
      (Some (page_payload c rune_setup)) s4 = (result, s5)"
    by (cases "request e PUT
      (Perks_Page (page_id (case find is_tagged pages of Some p \<Rightarrow> p | None \<Rightarrow> hd pages)))
      (Some (page_payload c rune_setup)) s4")
  from apply_update_path[OF stored3 stored(2) reread put] listed
  have second: "http_log (world (snd (apply_runes_for_champion e c s3))) =
         http_log (world s3) @
           [(GET, Perks_Pages, None), (PUT, Perks_Page new_id, Some (page_payload c rune_setup))]"
    by simp
  from first log3 second after show ?thesis by simp
qed

text \<open>
  The amended statement at a client that lists no page, creates page 5 and then lists
  page 5: the second call updates page 5.
\<close>

theorem apply_create_then_update_witness:
  "fst (apply_runes_for_champion env_create_update ''Zed'' (ready_system ''Zed'')) = Inr True
   \<and> current_page_id (runes (snd (apply_runes_for_champion env_create_update ''Zed'' (ready_system ''Zed''))))
       = JInt 5
   \<and> http_log (world (snd (apply_runes_for_champion env_create_update ''Zed''
        (snd (apply_runes_for_champion env_create_update ''Zed'' (ready_system ''Zed''))))))
      = [(GET, Perks_Pages, None),
         (POST, Perks_Pages, Some (page_payload ''Zed'' scenario_setup)),
         (GET, Perks_Pages, None),
         (PUT, Perks_Page (JInt 5), Some (page_payload ''Zed'' scenario_setup))]"
proof -
  let ?e = env_create_update
  let ?s = "ready_system ''Zed''"
  let ?body = "Some (page_payload ''Zed'' scenario_setup)"
  let ?s1 = "snd (request ?e GET Perks_Pages None ?s)"
  let ?s2 = "snd (request ?e POST Perks_Pages ?body ?s1)"
  let ?s3 = "?s2\<lparr>runes := (runes ?s2)\<lparr>current_page_id := JInt 5\<rparr>\<rparr>"
  let ?s4 = "snd (request ?e GET Perks_Pages None ?s3)"
  have rd: "request ?e GET Perks_Pages None ?s = (JList [], ?s1)"
    by (simp add: apply_runes_for_champion_def apply_stored_def write_page_def
        choose_page_id_def request_def send_def find_league_client_def healthy_env_def
        script_def ok_200_def ready_system_def init_system_def scenario_setup_def
        page_payload_def Let_def env_create_update_def)
  have f: "\<not> truthy (JList [])" by simp
  have cr: "request ?e POST Perks_Pages ?body ?s1 = (created_page 5, ?s2)"
    by (simp add: apply_runes_for_champion_def apply_stored_def write_page_def
        choose_page_id_def request_def send_def find_league_client_def healthy_env_def
        script_def ok_200_def ready_system_def init_system_def scenario_setup_def
        page_payload_def Let_def env_create_update_def)
  have gi: "getitem (created_page 5) ''id'' = Inr (JInt 5)" by (simp add: created_page_def)
  have rr: "request ?e GET Perks_Pages None ?s3 = (JList [created_page 5], ?s4)"
    by (simp add: apply_runes_for_champion_def apply_stored_def write_page_def
        choose_page_id_def request_def send_def find_league_client_def healthy_env_def
        script_def ok_200_def ready_system_def init_system_def scenario_setup_def
        page_payload_def Let_def env_create_update_def)
  have ne: "[created_page 5] \<noteq> []" by simp
  have wf: "\<forall>p \<in> set [created_page 5]. well_formed_page p"
    by (simp add: well_formed_page_def created_page_def)
  have li: "page_id (case find is_tagged [created_page 5] of Some p \<Rightarrow> p | None \<Rightarrow> hd [created_page 5])
      = JInt 5"
    by (simp add: page_id_def created_page_def is_tagged_def)
  have l1: "http_log (world ?s1) = [(GET, Perks_Pages, None)]"
    by (simp add: apply_runes_for_champion_def apply_stored_def write_page_def
        choose_page_id_def request_def send_def find_league_client_def healthy_env_def
        script_def ok_200_def ready_system_def init_system_def scenario_setup_def
        page_payload_def Let_def env_create_update_def)
  from apply_create_then_update [OF ready_stored valid_scenario_setup rd f cr gi refl rr ne wf li] l1
  show ?thesis by simp
qed

text \<open>
  C4 as stated fails when the second read of the pages fails: the first call creates
  page 5 and records its id, the second call reads \<open>None\<close>, takes the list to be empty and
  sends another create instead of an update of page 5.
\<close>

theorem apply_read_fails_counterexample:
  "fst (apply_runes_for_champion env_read_fails ''Zed'' (ready_system ''Zed'')) = Inr True
   \<and> current_page_id (runes (snd (apply_runes_for_champion env_read_fails ''Zed'' (ready_system ''Zed''))))
       = JInt 5
   \<and> http_log (world (snd (apply_runes_for_champion env_read_fails ''Zed''
        (snd (apply_runes_for_champion env_read_fails ''Zed'' (ready_system ''Zed''))))))
      = [(GET, Perks_Pages, None),
         (POST, Perks_Pages, Some (page_payload ''Zed'' scenario_setup)),
         (GET, Perks_Pages, None),
         (POST, Perks_Pages, Some (page_payload ''Zed'' scenario_setup))]"
  by (simp add: apply_runes_for_champion_def apply_stored_def write_page_def
        choose_page_id_def request_def send_def find_league_client_def healthy_env_def
        script_def ok_200_def ready_system_def init_system_def scenario_setup_def
        page_payload_def Let_def env_read_fails_def created_page_def)

section \<open>Properties of the selection monitor\<close>

lemma same_session_refl [simp]: "same_session s s"
  by (simp add: same_session_def)

lemma same_session_trans: "same_session s s1 \<Longrightarrow> same_session s1 s2 \<Longrightarrow> same_session s s2"
  by (simp add: same_session_def)

lemma request_same_session: "same_session s (snd (request e m ep d s))"
  using request_frame(2,3)[of e m ep d s "fst (request e m ep d s)" "snd (request e m ep d s)"]
  by (simp add: same_session_def)

lemma load_same_session: "same_session s (snd (load_rune_data_from_file c s))"
  by (simp add: load_rune_data_from_file_def same_session_def Let_def split: option.splits)

lemma fetch_same_session: "same_session s (snd (fetch_runes_for_champion e c s))"
proof (cases "scrape e (scrapes (world s)) (lower c)")
  case Scrape_Raised
  then show ?thesis by (simp add: fetch_runes_for_champion_def Let_def same_session_def)
next
  case (Scrape_Returned written)
  let ?s1 = "s\<lparr>world := (world s)\<lparr>scrapes := Suc (scrapes (world s))\<rparr>\<rparr>"
  let ?s2 = "case written of None \<Rightarrow> ?s1
    | Some r \<Rightarrow> ?s1\<lparr>world := (world ?s1)\<lparr>rune_data_json := Some r\<rparr>\<rparr>"
  have "same_session s ?s2" by (simp add: same_session_def split: option.splits)
  from same_session_trans[OF this load_same_session[of ?s2 c]] Scrape_Returned
  show ?thesis by (simp add: fetch_runes_for_champion_def Let_def split_def)
qed

lemma write_page_same_session: "same_session s (snd (write_page e c rune_setup pages s))"
proof -
  have u: "\<And>s1 v. same_session s s1 \<Longrightarrow> same_session s (s1\<lparr>runes := v\<rparr>)"
    by (simp add: same_session_def)
  show ?thesis
    unfolding write_page_def
    by (simp add: split_def Let_def request_same_session u split: sum.splits bool.splits)
qed

lemma apply_stored_same_session: "same_session s (snd (apply_stored e c s))"
proof -
  have "\<And>rs pages. same_session s
      (snd (write_page e c rs pages (snd (request e GET Perks_Pages None s))))"
    using same_session_trans[OF request_same_session write_page_same_session] .
  then show ?thesis
    unfolding apply_stored_def by (simp add: split_def Let_def split: option.splits)
qed

lemma apply_same_session: "same_session s (snd (apply_runes_for_champion e c s))"
proof -
  have "same_session s
      (snd (apply_stored e c (snd (fetch_runes_for_champion e c s))))"
    using same_session_trans[OF fetch_same_session apply_stored_same_session] .
  then show ?thesis
    unfolding apply_runes_for_champion_def
    using fetch_same_session[of s e c] apply_stored_same_session[of s e c]
    by (auto simp: split_def split: sum.splits bool.splits prod.splits)
qed

lemma on_champion_locked_unhashable:
  "\<not> hashable a \<Longrightarrow> on_champion_locked e ch a s = (Some TypeError, s)"
  by (simp add: on_champion_locked_def)

lemma on_champion_locked_effect:
  assumes "hashable a"
  shows "fst (on_champion_locked e ch a s) = None
   \<and> monitor (snd (on_champion_locked e ch a s)) =
       (monitor s)\<lparr>processed_action_ids := insert a (processed_action_ids (monitor s))\<rparr>
   \<and> locked_in (world (snd (on_champion_locked e ch a s))) =
       locked_in (world s) @ (if a \<in> processed_action_ids (monitor s) then [] else [(ch, a)])"
proof (cases "a \<in> processed_action_ids (monitor s)")
  case True
  with assms show ?thesis by (simp add: on_champion_locked_def insert_absorb)
next
  case False
  let ?s1 = "s\<lparr>monitor := (monitor s)\<lparr>processed_action_ids :=
                      insert a (processed_action_ids (monitor s))\<rparr>,
               world := (world s)\<lparr>locked_in := locked_in (world s) @ [(ch, a)]\<rparr>\<rparr>"
  from assms False have f: "fst (on_champion_locked e ch a s) = None"
    by (simp add: on_champion_locked_def Let_def)
  have "same_session ?s1 (snd (on_champion_locked e ch a s))"
  proof (cases ch)
    case (JStr c)
    have 1: "same_session ?s1 (snd (apply_runes_for_champion e c ?s1))"
      by (rule apply_same_session)
    have 2: "same_session ?s1
        (snd (fetch_runes_for_champion e c (snd (apply_runes_for_champion e c ?s1))))"
      by (rule same_session_trans[OF 1 fetch_same_session])
    have 3: "same_session ?s1 (snd (apply_runes_for_champion e c
        (snd (fetch_runes_for_champion e c (snd (apply_runes_for_champion e c ?s1))))))"
      by (rule same_session_trans[OF 2 apply_same_session])
    from JStr False assms 1 2 3 show ?thesis
      by (auto simp: on_champion_locked_def Let_def split: prod.splits sum.splits bool.splits)
  qed (use False assms in \<open>simp_all add: on_champion_locked_def Let_def\<close>)
  with False f show ?thesis by (simp add: same_session_def)
qed

lemma fresh_append:
  "fresh ch P (xs @ ys) = fresh ch P xs @ fresh ch (P \<union> set xs) ys"
  by (induction xs arbitrary: P) (auto simp: insert_absorb)

lemma fresh_ids: "snd ` set (fresh ch P xs) = set xs - P"
  by (induction xs arbitrary: P) auto

lemma fresh_not_fired: "a \<in> P \<Longrightarrow> fired a (fresh ch P xs) = 0"
  using fresh_ids[of ch P xs] by (auto simp: fired_def filter_empty_conv)

lemma fresh_fired:
  "fired a (fresh ch P xs) = (if a \<in> set xs \<and> a \<notin> P then 1 else 0)"
proof (induction xs arbitrary: P)
  case Nil
  show ?case by (simp add: fired_def)
next
  case (Cons x xs)
  show ?case
  proof (cases "x \<in> P")
    case True
    with Cons[of P] show ?thesis by auto
  next
    case False
    show ?thesis
    proof (cases "x = a")
      case True
      with False fresh_not_fired[of a "insert a P" ch xs] show ?thesis
        by (simp add: fired_def)
    next
      case ne: False
      with False Cons[of "insert x P"] show ?thesis by (auto simp: fired_def)
    qed
  qed
qed


lemma advances_trans:
  "advances c xs s s1 \<Longrightarrow> advances c ys s1 s2 \<Longrightarrow> advances c (xs @ ys) s s2"
  by (auto simp: advances_def fresh_append)

lemma advances_same:
  assumes "current_champion (monitor s) = JStr c \<or> processed_action_ids (monitor s) = {}"
    and "same_session s s'"
  shows "advances c [] s s'"
  using assms by (auto simp: advances_def same_session_def)

lemma steady_request:
  assumes "\<forall>n. scan e n = Client_Ready"
    and "http e (length (http_log (world s))) (m, ep, d) = Response 200 (Some j)"
  shows "fst (request e m ep d s) = j"
  using assms
  by (simp add: request_def send_def find_league_client_def Let_def split: prod.splits)

lemma steady_champion:
  assumes "steady_client e sid c"
  shows "truthy (fst (request e GET (Champion_Of sid cid) None s))"
    and "py_get (fst (request e GET (Champion_Of sid cid) None s)) ''name'' = Inr (JStr c)"
proof -
  from assms obtain j
    where j: "http e (length (http_log (world s))) (GET, Champion_Of sid cid, None)
        = Response 200 (Some j)" "truthy j" "py_get j ''name'' = Inr (JStr c)"
    unfolding steady_client_def by blast
  from assms have "\<forall>n. scan e n = Client_Ready" by (simp add: steady_client_def)
  from steady_request[OF this j(1)] j(2,3)
  show "truthy (fst (request e GET (Champion_Of sid cid) None s))"
    and "py_get (fst (request e GET (Champion_Of sid cid) None s)) ''name'' = Inr (JStr c)"
    by simp_all
qed

lemma steady_summoner:
  assumes "steady_client e sid c"
  shows "truthy (fst (request e GET Current_Summoner None s))"
    and "py_get (fst (request e GET Current_Summoner None s)) ''summonerId'' = Inr sid"
proof -
  from assms obtain j
    where j: "http e (length (http_log (world s))) (GET, Current_Summoner, None)
        = Response 200 (Some j)" "truthy j" "py_get j ''summonerId'' = Inr sid"
    unfolding steady_client_def by blast
  from assms have "\<forall>n. scan e n = Client_Ready" by (simp add: steady_client_def)
  from steady_request[OF this j(1)] j(2,3)
  show "truthy (fst (request e GET Current_Summoner None s))"
    and "py_get (fst (request e GET Current_Summoner None s)) ''summonerId'' = Inr sid"
    by simp_all
qed

lemma handle_action_steady:
  assumes steady: "steady_client e sid c"
    and inv: "current_champion (monitor s) = JStr c \<or> processed_action_ids (monitor s) = {}"
    and hash: "hashable (action_id a)"
  shows "fst (handle_action e sid cell a s) = None
     \<and> advances c (locked_ids cell [a]) s (snd (handle_action e sid cell a s))"
proof (cases "selects cell a")
  case False
  then have "handle_action e sid cell a s = (None, s)"
    by (auto simp: handle_action_def selects_def)
  moreover from False have "locked_ids cell [a] = []" by (simp add: locked_ids_def)
  ultimately show ?thesis using advances_same[OF inv same_session_refl] by simp
next
  case True
  let ?r = "request e GET (Champion_Of sid (championId a)) None s"
  let ?s1 = "snd ?r"
  let ?s2 = "if JStr c \<noteq> current_champion (monitor ?s1)
             then ?s1\<lparr>monitor := (monitor ?s1)\<lparr>current_champion := JStr c,
                       processed_action_ids := {}\<rparr>\<rparr>
             else ?s1"
  note r = steady_champion[OF steady, of "championId a" s]
  have c: "c \<noteq> []" using steady by (simp add: steady_client_def)
  have ss: "same_session s ?s1" by (rule request_same_session)
  then have m1: "monitor ?s1 = monitor s" "locked_in (world ?s1) = locked_in (world s)"
    by (simp_all add: same_session_def)
  have m2: "processed_action_ids (monitor ?s2) = processed_action_ids (monitor s)"
    "current_champion (monitor ?s2) = JStr c"
    "locked_in (world ?s2) = locked_in (world s)"
    using inv m1 by auto
  show ?thesis
  proof (cases "truthy (completed a)")
    case False
    with True have ids: "locked_ids cell [a] = []" by (simp add: locked_ids_def)
    from True False r c have "handle_action e sid cell a s = (None, ?s2)"
      by (simp add: handle_action_def selects_def split_def Let_def)
    with ids m2 show ?thesis by (simp add: advances_def)
  next
    case completed: True
    with True have ids: "locked_ids cell [a] = [action_id a]" by (simp add: locked_ids_def)
    let ?s3 = "snd (on_champion_locked e (JStr c) (action_id a) ?s2)"
    have "fst (on_champion_locked e (JStr c) (action_id a) ?s2) = None"
      using on_champion_locked_effect[OF hash, of e "JStr c" ?s2] by simp
    then have ocl: "on_champion_locked e (JStr c) (action_id a) ?s2 = (None, ?s3)"
      by (simp add: prod_eq_iff)
    from True completed hash r c
    have h: "handle_action e sid cell a s =
        (if action_id a \<notin> processed_action_ids (monitor ?s2)
         then on_champion_locked e (JStr c) (action_id a) ?s2 else (None, ?s2))"
      by (simp add: handle_action_def selects_def split_def Let_def)
    have eff: "monitor ?s3 =
        (monitor ?s2)\<lparr>processed_action_ids := insert (action_id a) (processed_action_ids (monitor ?s2))\<rparr>"
      "locked_in (world ?s3) = locked_in (world ?s2) @
         (if action_id a \<in> processed_action_ids (monitor ?s2) then [] else [(JStr c, action_id a)])"
      using on_champion_locked_effect[OF hash, of e "JStr c" ?s2] by simp_all
    show ?thesis
    proof (cases "action_id a \<in> processed_action_ids (monitor s)")
      case True
      with h m2 have "handle_action e sid cell a s = (None, ?s2)" by simp
      with True ids m2 show ?thesis by (simp add: advances_def insert_absorb)
    next
      case False
      with h m2 have "handle_action e sid cell a s
          = on_champion_locked e (JStr c) (action_id a) ?s2" by simp
      from trans[OF this ocl] have "handle_action e sid cell a s = (None, ?s3)" .
      with False ids m2 eff show ?thesis by (simp add: advances_def)
    qed
  qed
qed

lemma advances_inv:
  "advances c ids s s' \<Longrightarrow>
   current_champion (monitor s') = JStr c \<or> processed_action_ids (monitor s') = {}"
  unfolding advances_def by blast

lemma locked_ids_Cons: "locked_ids cell (a # as) = locked_ids cell [a] @ locked_ids cell as"
  by (simp add: locked_ids_def)

lemma locked_ids_append: "locked_ids cell (xs @ ys) = locked_ids cell xs @ locked_ids cell ys"
  by (simp add: locked_ids_def)

lemma handle_actions_steady:
  assumes steady: "steady_client e sid c"
    and inv: "current_champion (monitor s) = JStr c \<or> processed_action_ids (monitor s) = {}"
    and hash: "\<forall>a \<in> set as. hashable (action_id a)"
  shows "fst (handle_actions e sid cell as s) = None
     \<and> advances c (locked_ids cell as) s (snd (handle_actions e sid cell as s))"
  using inv hash
proof (induction as arbitrary: s)
  case Nil
  then show ?case using advances_same[OF _ same_session_refl] by (simp add: locked_ids_def)
next
  case (Cons a as)
  let ?s1 = "snd (handle_action e sid cell a s)"
  from Cons.prems have ha: "fst (handle_action e sid cell a s) = None"
    "advances c (locked_ids cell [a]) s ?s1"
    using handle_action_steady[OF steady, of s a cell] by simp_all
  from Cons.IH[OF advances_inv[OF ha(2)]] Cons.prems
  have ih: "fst (handle_actions e sid cell as ?s1) = None"
    "advances c (locked_ids cell as) ?s1 (snd (handle_actions e sid cell as ?s1))" by simp_all
  from ha(1) have "handle_actions e sid cell (a # as) s = handle_actions e sid cell as ?s1"
    by (simp add: split_def split: prod.splits option.splits)
  with ih advances_trans[OF ha(2) ih(2)] show ?case
    by (simp add: locked_ids_Cons[of cell a as])
qed

lemma handle_action_groups_steady:
  assumes steady: "steady_client e sid c"
    and inv: "current_champion (monitor s) = JStr c \<or> processed_action_ids (monitor s) = {}"
    and hash: "\<forall>a \<in> set (concat groups). hashable (action_id a)"
  shows "fst (handle_action_groups e sid cell groups s) = None
     \<and> advances c (locked_ids cell (concat groups)) s
         (snd (handle_action_groups e sid cell groups s))"
  using inv hash
proof (induction groups arbitrary: s)
  case Nil
  then show ?case using advances_same[OF _ same_session_refl] by (simp add: locked_ids_def)
next
  case (Cons g groups)
  let ?s1 = "snd (handle_actions e sid cell g s)"
  from Cons.prems have ha: "fst (handle_actions e sid cell g s) = None"
    "advances c (locked_ids cell g) s ?s1"
    using handle_actions_steady[OF steady, of s g cell] by simp_all
  from Cons.IH[OF advances_inv[OF ha(2)]] Cons.prems
  have ih: "fst (handle_action_groups e sid cell groups ?s1) = None"
    "advances c (locked_ids cell (concat groups)) ?s1
       (snd (handle_action_groups e sid cell groups ?s1))" by simp_all
  from ha(1) have "handle_action_groups e sid cell (g # groups) s
      = handle_action_groups e sid cell groups ?s1"
    by (simp add: split_def split: prod.splits option.splits)
  with ih advances_trans[OF ha(2) ih(2)] show ?case
    by (simp add: locked_ids_append)
qed

lemma advances_nil:
  assumes "current_champion (monitor s) = JStr c \<or> processed_action_ids (monitor s) = {}"
    and "processed_action_ids (monitor s') = processed_action_ids (monitor s)"
    and "current_champion (monitor s') = current_champion (monitor s)"
    and "locked_in (world s') = locked_in (world s)"
  shows "advances c [] s s'"
  using assms by (auto simp: advances_def)

lemma handle_ws_message_steady:
  assumes steady: "steady_client e sid c"
    and inv: "current_champion (monitor s) = JStr c \<or> processed_action_ids (monitor s) = {}"
    and sess: "in_session m"
  shows "advances c (delivered_ids sid m) s (snd (handle_ws_message e m s))"
proof (cases m)
  case Short_Message
  then show ?thesis
    using advances_same[OF inv same_session_refl]
    by (simp add: handle_ws_message_def delivered_ids_def)
next
  case (Event uri data)
  show ?thesis
  proof (cases "uri = JStr ''/lol-champ-select/v1/session''")
    case False
    with Event show ?thesis
      using advances_same[OF inv same_session_refl]
      by (simp add: handle_ws_message_def delivered_ids_def)
  next
    case uri: True
    show ?thesis
    proof (cases data)
      case None
      with Event uri show ?thesis
        using advances_same[OF inv same_session_refl]
        by (simp add: handle_ws_message_def delivered_ids_def)
    next
      case (Some d)
      let ?phase = "timer_phase d"
      let ?s1 = "if ?phase \<noteq> current_phase (monitor s)
                 then s\<lparr>monitor := (monitor s)\<lparr>current_phase := ?phase\<rparr>\<rparr> else s"
      let ?r = "request e GET Current_Summoner None ?s1"
      let ?s2 = "snd ?r"
      let ?cell = "find_local_cell sid (myTeam d)"
      from sess Event Some uri have ph: "truthy ?phase" "?phase \<noteq> JStr ''None''"
        and hash: "\<forall>a \<in> set (concat (actions d)). hashable (action_id a)"
        by (simp_all add: in_session_def)
      have p1: "current_phase (monitor ?s1) = ?phase" by simp
      have "same_session ?s1 ?s2" by (rule request_same_session)
      then have m2: "monitor ?s2 = monitor ?s1" "locked_in (world ?s2) = locked_in (world ?s1)"
        by (simp_all add: same_session_def)
      have a2: "advances c [] s ?s2"
        by (rule advances_nil[OF inv]) (simp_all add: m2)
      have h: "handle_ws_message e m s =
          (if ?cell = JNull then (None, ?s2)
           else handle_action_groups e sid ?cell (actions d) ?s2)"
        using Event Some uri ph
        by (cases "?phase = current_phase (monitor s)")
           (auto simp: handle_ws_message_def Let_def split_def steady_summoner[OF steady])
      show ?thesis
      proof (cases "?cell = JNull")
        case True
        with h a2 Event Some uri show ?thesis by (simp add: delivered_ids_def)
      next
        case False
        from handle_action_groups_steady[OF steady advances_inv[OF a2] hash, of ?cell]
        have "advances c (locked_ids ?cell (concat (actions d))) ?s2
            (snd (handle_action_groups e sid ?cell (actions d) ?s2))" by simp
        from advances_trans[OF a2 this] h False Event Some uri show ?thesis
          by (simp add: delivered_ids_def)
      qed
    qed
  qed
qed

lemma deliver_all_steady:
  assumes steady: "steady_client e sid c"
    and inv: "current_champion (monitor s) = JStr c \<or> processed_action_ids (monitor s) = {}"
    and sess: "\<forall>m \<in> set ms. in_session m"
  shows "advances c (concat (map (delivered_ids sid) ms)) s (deliver_all e ms s)"
  using inv sess
proof (induction ms arbitrary: s)
  case Nil
  then show ?case using advances_same[OF _ same_session_refl] by simp
next
  case (Cons m ms)
  let ?s1 = "snd (handle_ws_message e m s)"
  from Cons.prems have a1: "advances c (delivered_ids sid m) s ?s1"
    using handle_ws_message_steady[OF steady] by simp
  from Cons.IH[OF advances_inv[OF a1]] Cons.prems
  have "advances c (concat (map (delivered_ids sid) ms)) ?s1 (deliver_all e ms ?s1)" by simp
  from advances_trans[OF a1 this] show ?case by simp
qed

lemma advances_triggers:
  assumes "advances c ids s s'"
  shows "triggers_since s s' = fresh (JStr c) (processed_action_ids (monitor s)) ids"
  using assms by (simp add: advances_def triggers_since_def)

lemma steady_lobby: "steady_client env_lobby (JInt 42) ''Zed''"
  by (simp add: steady_client_def env_lobby_def healthy_env_def lobby_http_def)

lemma lock_event_in_session: "in_session lock_event"
  by (simp add: in_session_def lock_event_def lock_data_def)

lemma lock_event_delivers: "delivered_ids (JInt 42) lock_event = [JInt 7]"
  by (simp add: delivered_ids_def lock_event_def lock_data_def locked_ids_def selects_def)






lemma lobby_apply_fails:
  "fst (apply_runes_for_champion env_lobby ''Zed'' (picking_system {JInt 7})) = Inr False"
  "fst (fetch_runes_for_champion env_lobby ''Zed'' (picking_system {JInt 7})) = Inr False"
proof -
  have e: "rune_data RuneManager_init = Map.empty" by (simp add: RuneManager_init_def)
  show "fst (fetch_runes_for_champion env_lobby ''Zed'' (picking_system {JInt 7})) = Inr False"
    by (simp add: fetch_runes_for_champion_def load_rune_data_from_file_def env_lobby_def
        healthy_env_def no_scrape_def picking_system_def init_system_def Let_def)
  show "fst (apply_runes_for_champion env_lobby ''Zed'' (picking_system {JInt 7})) = Inr False"
    by (simp add: apply_runes_for_champion_def fetch_runes_for_champion_def
        load_rune_data_from_file_def env_lobby_def healthy_env_def no_scrape_def
        picking_system_def init_system_def Let_def e dom_def)
qed

text \<open>
  C10. For an action id that can be hashed, as every id the handler passes on is,
  \<open>on_champion_locked\<close> returns and leaves the id in \<open>processed_action_ids\<close> whatever
  the attempt to apply and its retry do: succeed, fail or raise. In the messages delivered
  afterwards by a steady client for the same subject, none of which ends the session, the
  id triggers no second time, however often it is delivered.
\<close>

theorem failed_apply_consumes_action_id:
  assumes "steady_client e sid c"
    and "\<forall>m \<in> set ms. in_session m"
    and "current_champion (monitor s) = JStr c"
    and "hashable a"
  shows "fst (on_champion_locked e (JStr c) a s) = None
     \<and> a \<in> processed_action_ids (monitor (snd (on_champion_locked e (JStr c) a s)))
     \<and> fired a (triggers_since (snd (on_champion_locked e (JStr c) a s))
                 (deliver_all e ms (snd (on_champion_locked e (JStr c) a s)))) = 0"
proof -
  let ?s1 = "snd (on_champion_locked e (JStr c) a s)"
  from on_champion_locked_effect[OF assms(4), of e "JStr c" s] assms(3)
  have m: "fst (on_champion_locked e (JStr c) a s) = None"
    "a \<in> processed_action_ids (monitor ?s1)" "current_champion (monitor ?s1) = JStr c"
    by simp_all
  then have inv: "current_champion (monitor ?s1) = JStr c \<or> processed_action_ids (monitor ?s1) = {}"
    by simp
  from advances_triggers[OF deliver_all_steady[OF assms(1) inv assms(2)]] m(1,2)
  show ?thesis by (simp add: fresh_fired)
qed

text \<open>
  The statement at a client on which applying runes fails, as does the retry: action 7 is
  processed, and two later deliveries of its lock-in event trigger nothing.
\<close>

theorem failed_apply_consumes_action_id_witness:
  "steady_client env_lobby (JInt 42) ''Zed''
   \<and> in_session lock_event
   \<and> current_champion (monitor (picking_system {})) = JStr ''Zed''
   \<and> hashable (JInt 7)
   \<and> delivered_ids (JInt 42) lock_event = [JInt 7]
   \<and> fst (apply_runes_for_champion env_lobby ''Zed'' (picking_system {JInt 7})) = Inr False
   \<and> fst (fetch_runes_for_champion env_lobby ''Zed'' (picking_system {JInt 7})) = Inr False
   \<and> fst (on_champion_locked env_lobby (JStr ''Zed'') (JInt 7) (picking_system {})) = None
   \<and> JInt 7 \<in> processed_action_ids
        (monitor (snd (on_champion_locked env_lobby (JStr ''Zed'') (JInt 7) (picking_system {}))))
   \<and> fired (JInt 7) (triggers_since
        (snd (on_champion_locked env_lobby (JStr ''Zed'') (JInt 7) (picking_system {})))
        (deliver_all env_lobby [lock_event, lock_event]
           (snd (on_champion_locked env_lobby (JStr ''Zed'') (JInt 7) (picking_system {}))))) = 0"
proof -
  have s: "\<forall>m \<in> set [lock_event, lock_event]. in_session m"
    using lock_event_in_session by simp
  have c: "current_champion (monitor (picking_system {})) = JStr ''Zed''"
    by (simp add: picking_system_def)
  have h: "hashable (JInt 7)" by simp
  from failed_apply_consumes_action_id [OF steady_lobby s c h]
    steady_lobby lock_event_in_session c h lock_event_delivers lobby_apply_fails
  show ?thesis by blast
qed

end
